theory Spec2Isabelle
  imports Complex_Main
begin

section \<open>JavaScript strings and the regular expressions of the classifier\<close>

text \<open>
  A JavaScript string is a sequence of UTF-16 code units. Message texts are modelled as
  lists of code units (natural numbers); identifiers, state names, reasons and rendered
  dates are ASCII and are modelled as HOL strings. \<open>js\<close> turns an ASCII literal of the
  source into its code units.
\<close>

type_synonym jsstring = "nat list"

definition js :: "string \<Rightarrow> jsstring" where
  "js s = map of_char s"

text \<open>The class \<open>\w\<close> of a regular expression without the unicode flag: \<open>[A-Za-z0-9_]\<close>.\<close>

definition isWordChar :: "nat \<Rightarrow> bool" where
  "isWordChar c =
     ((48 \<le> c \<and> c \<le> 57) \<or> (65 \<le> c \<and> c \<le> 90) \<or> c = 95 \<or> (97 \<le> c \<and> c \<le> 122))"

text \<open>
  Case-insensitive comparison (flag \<open>i\<close>, no flag \<open>u\<close>) compares the canonical forms of
  two code units: the upper-case form, unless that would turn a non-ASCII unit into an
  ASCII one. The upper-case mapping of the units from 128 on belongs to the Unicode
  tables of the runtime and is the parameter \<open>uc\<close>; on ASCII it is written out.
\<close>

definition canonicalize :: "(nat \<Rightarrow> nat) \<Rightarrow> nat \<Rightarrow> nat" where
  "canonicalize uc ch =
     (let cu = (if 97 \<le> ch \<and> ch \<le> 122 then ch - 32 else if ch < 128 then ch else uc ch)
      in if 128 \<le> ch \<and> cu < 128 then ch else cu)"

definition charMatches :: "(nat \<Rightarrow> nat) \<Rightarrow> bool \<Rightarrow> nat \<Rightarrow> nat \<Rightarrow> bool" where
  "charMatches uc ignoreCase p c =
     (if ignoreCase then canonicalize uc p = canonicalize uc c else p = c)"

text \<open>A literal alternative matched at the head of the text; the result is the rest of the text.\<close>

fun matchLiteral :: "(nat \<Rightarrow> nat \<Rightarrow> bool) \<Rightarrow> jsstring \<Rightarrow> jsstring \<Rightarrow> jsstring option" where
  "matchLiteral eq [] s = Some s"
| "matchLiteral eq (p # ps) [] = None"
| "matchLiteral eq (p # ps) (c # cs) = (if eq p c then matchLiteral eq ps cs else None)"

definition isWord :: "nat option \<Rightarrow> bool" where
  "isWord x = (case x of None \<Rightarrow> False | Some c \<Rightarrow> isWordChar c)"

text \<open>\<open>\b\<close> holds between two positions when exactly one side is a word character;
  outside the text there is none.\<close>

definition wordBoundary :: "nat option \<Rightarrow> nat option \<Rightarrow> bool" where
  "wordBoundary a b = (isWord a \<noteq> isWord b)"

definition headOpt :: "'a list \<Rightarrow> 'a option" where
  "headOpt xs = (case xs of [] \<Rightarrow> None | x # _ \<Rightarrow> Some x)"

text \<open>One alternative of \<open>\b(a1|...|an)\b\<close> at one position: \<open>prev\<close> is the code unit before
  the position, \<open>s\<close> the text from the position on.\<close>

definition altMatchesAt ::
  "(nat \<Rightarrow> nat \<Rightarrow> bool) \<Rightarrow> nat option \<Rightarrow> jsstring \<Rightarrow> jsstring \<Rightarrow> bool" where
  "altMatchesAt eq prev s alt =
     (case matchLiteral eq alt s of
        None \<Rightarrow> False
      | Some rest \<Rightarrow>
          wordBoundary prev (headOpt s) \<and>
          wordBoundary (if alt = [] then prev else Some (s ! (length alt - 1))) (headOpt rest))"

text \<open>\<open>RegExp.prototype.test\<close> for a pattern \<open>/\b(a1|...|an)\b/\<close> of literal alternatives:
  the matcher tries every start position and, by backtracking, every alternative there.\<close>

fun scanFrom ::
  "(nat \<Rightarrow> nat \<Rightarrow> bool) \<Rightarrow> jsstring list \<Rightarrow> nat option \<Rightarrow> jsstring \<Rightarrow> bool" where
  "scanFrom eq alts prev [] = list_ex (altMatchesAt eq prev []) alts"
| "scanFrom eq alts prev (c # cs) =
     (list_ex (altMatchesAt eq prev (c # cs)) alts \<or> scanFrom eq alts (Some c) cs)"

definition regexTestUnits :: "(nat \<Rightarrow> nat) \<Rightarrow> bool \<Rightarrow> jsstring list \<Rightarrow> jsstring \<Rightarrow> bool" where
  "regexTestUnits uc ignoreCase alts s = scanFrom (charMatches uc ignoreCase) alts None s"

definition regexTest :: "(nat \<Rightarrow> nat) \<Rightarrow> bool \<Rightarrow> string list \<Rightarrow> jsstring \<Rightarrow> bool" where
  "regexTest uc ignoreCase alts s = regexTestUnits uc ignoreCase (map js alts) s"

text \<open>\<open>String.prototype.trim\<close>: white space and line terminators of ECMAScript.\<close>

definition isTrimSpace :: "nat \<Rightarrow> bool" where
  "isTrimSpace c =
     ((9 \<le> c \<and> c \<le> 13) \<or> c = 32 \<or> c = 160 \<or> c = 5760 \<or> (8192 \<le> c \<and> c \<le> 8202) \<or>
      c = 8232 \<or> c = 8233 \<or> c = 8239 \<or> c = 8287 \<or> c = 12288 \<or> c = 65279)"

definition trim :: "jsstring \<Rightarrow> jsstring" where
  "trim s = rev (dropWhile isTrimSpace (rev (dropWhile isTrimSpace s)))"

section \<open>Sentiment classification\<close>

datatype sentiment = Positive | Negative | Neutral

text \<open>The first element of the classifier model's answer: a raw label and a score.\<close>

record model_output =
  label :: string
  score :: real

text \<open>The argument \<open>{ label, score }\<close> built by \<open>analyzeSentiment\<close>.\<close>

record ai_sentiment =
  ai_label :: sentiment
  ai_score :: real

text \<open>
  What the engine takes from outside the repository's own logic:
  \<^item> \<open>toUpperCase1\<close>: the Unicode upper-case mapping of a single code unit (used by flag \<open>i\<close>);
  \<^item> \<open>toLowerCase\<close>: \<open>String.prototype.toLowerCase\<close>;
  \<^item> \<open>sentimentAnalyzer\<close>: the loaded text-classification pipeline, \<open>None\<close> while it is
    not loaded; applied to a text it answers or throws (\<open>None\<close>);
  \<^item> \<open>analyzeKeywordSentiment\<close>: the keyword cascade used as the fallback; none of the
    properties below depends on what it answers;
  \<^item> \<open>momentParse\<close>: the date library's lenient parser for the format
    \<open>DD/MM/YYYY HH:mm\<close>, \<open>None\<close> when the result is not valid;
  \<^item> \<open>momentFormatLong\<close>: the long rendering used in replies;
  \<^item> \<open>otherDatePatterns\<close>: the rows of the date table after the weekday rows (month
    names, numeric dates, bare day), and \<open>timePatterns\<close>: the time table;
  \<^item> \<open>sessionTimeoutDays\<close>: the configured number \<open>numbers.sessionTimeoutDays\<close>.
\<close>

record env =
  toUpperCase1 :: "nat \<Rightarrow> nat"
  toLowerCase :: "jsstring \<Rightarrow> jsstring"
  sentimentAnalyzer :: "(jsstring \<Rightarrow> model_output option) option"
  analyzeKeywordSentiment :: "jsstring \<Rightarrow> string \<Rightarrow> sentiment"
  momentParse :: "string \<Rightarrow> int option"
  momentFormatLong :: "int \<Rightarrow> string"
  otherDatePatterns :: "jsstring \<Rightarrow> int \<Rightarrow> string option"
  timePatterns :: "jsstring \<Rightarrow> int \<Rightarrow> string option"
  sessionTimeoutDays :: int

definition yesPatterns :: "string list" where
  "yesPatterns =
     [''yes'', ''yeah'', ''yep'', ''sure'', ''okay'', ''ok'', ''fine'', ''good'', ''great'',
      ''absolutely'', ''definitely'', ''of course'', ''certainly'', ''right'', ''correct'',
      ''true'', ''agree'', ''accept'', ''interested'', ''want'', ''would like'',
      ''sounds good'', ''let's do it'', ''count me in'']"

definition noPatterns :: "string list" where
  "noPatterns =
     [''no'', ''nope'', ''nah'', ''not'', ''never'', ''refuse'', ''decline'', ''reject'',
      ''disagree'', ''don't'', ''won't'', ''can't'', ''shouldn't'', ''wouldn't'',
      ''uninterested'', ''not interested'', ''not really'', ''maybe not'', ''probably not'']"

definition interpretYesNoSentiment :: "(nat \<Rightarrow> nat) \<Rightarrow> jsstring \<Rightarrow> ai_sentiment \<Rightarrow> sentiment" where
  "interpretYesNoSentiment uc text aiSentiment =
     (if regexTest uc True yesPatterns text then Positive
      else if regexTest uc True noPatterns text then Negative
      else if ai_label aiSentiment = Negative \<and> ai_score aiSentiment > 0.7 then Negative
      else Positive)"

definition analyzeSentiment :: "env \<Rightarrow> jsstring \<Rightarrow> string \<Rightarrow> sentiment" where
  "analyzeSentiment E text context =
     (case sentimentAnalyzer E of
        None \<Rightarrow> analyzeKeywordSentiment E text context
      | Some model \<Rightarrow>
          (let cleanText = trim text in
           case model cleanText of
             None \<Rightarrow> analyzeKeywordSentiment E text context
           | Some sentiment \<Rightarrow>
               (let sentimentLabel =
                      (if label sentiment = ''LABEL_2'' then Positive
                       else if label sentiment = ''LABEL_0'' then Negative
                       else Neutral)
                in if context = ''yes_no_question''
                   then interpretYesNoSentiment (toUpperCase1 E) cleanText
                          \<lparr>ai_label = sentimentLabel, ai_score = score sentiment\<rparr>
                   else if sentimentLabel = Positive \<and> score sentiment > 0.6 then Positive
                   else if sentimentLabel = Negative \<and> score sentiment > 0.6 then Negative
                   else (let keywordResult = analyzeKeywordSentiment E text context
                         in if keywordResult \<noteq> Neutral then keywordResult else Neutral))))"

section \<open>Dates and times\<close>

text \<open>
  An instant is a number of milliseconds on the local wall-clock time line, counted from
  1 January 1970, 00:00 local time; the offset of the time zone is constant and absorbed
  in the origin. The date library's accessors and renderings used by the resolver are
  written out on this time line.
\<close>

type_synonym moment = int

definition msPerMinute :: int where "msPerMinute = 60000"
definition msPerDay :: int where "msPerDay = 86400000"

definition dayNumber :: "moment \<Rightarrow> int" where
  "dayNumber t = t div msPerDay"

text \<open>\<open>now.day()\<close>: 0 is Sunday; day 0 of the time line was a Thursday.\<close>

definition momentDay :: "moment \<Rightarrow> int" where
  "momentDay t = (dayNumber t + 4) mod 7"

definition addDays :: "moment \<Rightarrow> int \<Rightarrow> moment" where
  "addDays t n = t + n * msPerDay"

definition addMinutes :: "moment \<Rightarrow> int \<Rightarrow> moment" where
  "addMinutes t n = t + n * msPerMinute"

definition startOfMinute :: "moment \<Rightarrow> moment" where
  "startOfMinute t = t - t mod msPerMinute"

text \<open>Year, month and day of a day number in the proleptic Gregorian calendar, computed
  in stages: the 400-year era and the day in it, the year of the era, the day of the year
  (counted from 1 March), the month and the day of the month.\<close>

definition civilOfMonth :: "int \<Rightarrow> int \<Rightarrow> int \<Rightarrow> int \<Rightarrow> int \<times> int \<times> int" where
  "civilOfMonth era yoe doy mp =
     (if mp < 10
      then (yoe + era * 400 + (if mp + 3 \<le> 2 then 1 else 0), mp + 3, doy - (153 * mp + 2) div 5 + 1)
      else (yoe + era * 400 + (if mp - 9 \<le> 2 then 1 else 0), mp - 9, doy - (153 * mp + 2) div 5 + 1))"

definition civilOfDay :: "int \<Rightarrow> int \<Rightarrow> int \<Rightarrow> int \<times> int \<times> int" where
  "civilOfDay era yoe doy = civilOfMonth era yoe doy ((5 * doy + 2) div 153)"

definition civilOfYear :: "int \<Rightarrow> int \<Rightarrow> int \<Rightarrow> int \<times> int \<times> int" where
  "civilOfYear era doe yoe = civilOfDay era yoe (doe - (365 * yoe + yoe div 4 - yoe div 100))"

definition civilOfEra :: "int \<Rightarrow> int \<Rightarrow> int \<times> int \<times> int" where
  "civilOfEra era doe =
     civilOfYear era doe ((doe - doe div 1460 + doe div 36524 - doe div 146096) div 365)"

definition civilFromDays :: "int \<Rightarrow> int \<times> int \<times> int" where
  "civilFromDays z = civilOfEra ((z + 719468) div 146097) ((z + 719468) mod 146097)"

definition digitChar :: "nat \<Rightarrow> char" where
  "digitChar n = ''0123456789'' ! (n mod 10)"

fun decimal :: "nat \<Rightarrow> string" where
  "decimal n = (if n < 10 then [digitChar n] else decimal (n div 10) @ [digitChar n])"

declare decimal.simps [simp del]

text \<open>The library's \<open>zeroFill\<close>: the absolute value padded with zeros, a minus sign in front
  of a negative number.\<close>

definition zeroFill :: "int \<Rightarrow> nat \<Rightarrow> string" where
  "zeroFill n targetLength =
     (if 0 \<le> n then [] else ''-'')
       @ replicate (targetLength - length (decimal (nat \<bar>n\<bar>))) (CHR ''0'')
       @ decimal (nat \<bar>n\<bar>)"

definition format_DDMMYYYY :: "moment \<Rightarrow> string" where
  "format_DDMMYYYY t =
     (case civilFromDays (dayNumber t) of
        (y, m, d) \<Rightarrow> zeroFill d 2 @ ''/'' @ zeroFill m 2 @ ''/'' @ zeroFill y 4)"

definition format_HHmm :: "moment \<Rightarrow> string" where
  "format_HHmm t =
     zeroFill ((t mod msPerDay) div 3600000) 2 @ '':'' @
     zeroFill (((t mod msPerDay) div msPerMinute) mod 60) 2"

section \<open>Temporal resolver\<close>

text \<open>The result object of \<open>parseTimeExpression\<close>; a flag that a branch leaves out
  (undefined, hence falsy) is \<open>False\<close> here.\<close>

record time_parse_result =
  success :: bool
  r_date :: "string option"
  r_time :: "string option"
  hasDate :: bool
  hasTime :: bool
  r_formatted :: "string option"
  needsDate :: bool
  needsTime :: bool
  complete :: bool
  partial :: bool
  immediate :: bool

definition immediateKeywords :: "jsstring list list" where
  "immediateKeywords =
     [map js [''now'', ''right now'', ''just now'', ''at this moment'', ''this instant'',
              ''this second'', ''this minute''],
      map js [''asap'', ''a.s.a.p.'', ''as soon as possible'', ''immediately'', ''instantly'',
              ''urgently'', ''straight away'', ''right away'', ''at once''],
      map js [''pronto'', ''stat'', ''quick'', ''quickly'', ''fast'', ''rapid'', ''swift'',
              ''prompt'', ''without delay'', ''no delay''],
      map js [''current time'', ''present time'', ''this time'', ''at this time'',
              ''the time now'', ''time right now''],
      map js [''in a sec'', ''in a second'', ''in seconds'', ''in a moment'',
              ''in just a moment'', ''in a jiffy'', ''in a flash'', ''in no time''],
      map js [''rn'', ''rt now'', ''rite now'', ''nao'', ''naow'', ''rightnow'', ''asap pls'',
              ''asap please'', ''call me now'', ''call now'', ''ring now'', ''phone now''],
      map js [''maintenant'', ''ahora'', ''jetzt'', ''ora'', ''agora'', ''sekarang'']
        @ [[51648, 44552], [20170], [1089, 1077, 1081, 1095, 1072, 1089],
           [1575, 1604, 1570, 1606]],
      map js [''rn pls'', ''asap af'', ''like now'', ''literally now'', ''actually now'',
              ''seriously now'', ''for real now'', ''no joke now''],
      map js [''before it's too late'', ''time sensitive'', ''urgent call'', ''emergency call'',
              ''critical call'', ''important call now'']]"

definition isImmediate :: "env \<Rightarrow> jsstring \<Rightarrow> bool" where
  "isImmediate E lowerText =
     list_ex (\<lambda>pattern. regexTestUnits (toUpperCase1 E) True pattern lowerText) immediateKeywords"

definition getNextWeekday :: "moment \<Rightarrow> int \<Rightarrow> string" where
  "getNextWeekday now targetDay =
     (let currentDay = momentDay now;
          daysToAdd = targetDay - currentDay;
          daysToAdd = (if daysToAdd \<le> 0 then daysToAdd + 7 else daysToAdd)
      in format_DDMMYYYY (addDays now daysToAdd))"

text \<open>The first rows of the date table: relative dates, then the names of the weekdays.
  A row is the list of alternatives of its pattern and its handler. The handlers of the
  relative rows change \<open>now\<close> in place, but their result is never empty and ends the loop, so
  no later row sees the change.\<close>

definition relativeDatePatterns :: "(string list \<times> (moment \<Rightarrow> string)) list" where
  "relativeDatePatterns =
     [([''yesterday'', ''yest''], \<lambda>now. format_DDMMYYYY (addDays now (- 1))),
      ([''today'', ''tod''], \<lambda>now. format_DDMMYYYY now),
      ([''tomorrow'', ''tmrw'', ''tom''], \<lambda>now. format_DDMMYYYY (addDays now 1)),
      ([''day after tomorrow'', ''overmorrow''], \<lambda>now. format_DDMMYYYY (addDays now 2))]"

definition weekdayPatterns :: "(string list \<times> (moment \<Rightarrow> string)) list" where
  "weekdayPatterns =
     [([''monday'', ''mon''], \<lambda>now. getNextWeekday now 1),
      ([''tuesday'', ''tue'', ''tues''], \<lambda>now. getNextWeekday now 2),
      ([''wednesday'', ''wed''], \<lambda>now. getNextWeekday now 3),
      ([''thursday'', ''thu'', ''thurs''], \<lambda>now. getNextWeekday now 4),
      ([''friday'', ''fri''], \<lambda>now. getNextWeekday now 5),
      ([''saturday'', ''sat''], \<lambda>now. getNextWeekday now 6),
      ([''sunday'', ''sun''], \<lambda>now. getNextWeekday now 0)]"

text \<open>The loop over the rows: the first row whose pattern matches and whose handler gives
  a truthy (non-empty) result wins.\<close>

fun firstDateMatch ::
  "(nat \<Rightarrow> nat) \<Rightarrow> (string list \<times> (moment \<Rightarrow> string)) list \<Rightarrow> jsstring \<Rightarrow> moment \<Rightarrow> string option" where
  "firstDateMatch uc [] lowerText now = None"
| "firstDateMatch uc ((pattern, handler) # rows) lowerText now =
     (if regexTest uc False pattern lowerText
      then (let result = handler now
            in if result \<noteq> [] then Some result else firstDateMatch uc rows lowerText now)
      else firstDateMatch uc rows lowerText now)"

definition parseDate :: "env \<Rightarrow> jsstring \<Rightarrow> moment \<Rightarrow> string option" where
  "parseDate E lowerText now =
     (case firstDateMatch (toUpperCase1 E) (relativeDatePatterns @ weekdayPatterns) lowerText now of
        Some result \<Rightarrow> Some result
      | None \<Rightarrow> otherDatePatterns E lowerText now)"

definition parseTimeWithTinyLlama :: "env \<Rightarrow> jsstring \<Rightarrow> moment \<Rightarrow> time_parse_result" where
  "parseTimeWithTinyLlama E text currentDateTime =
     (let now = currentDateTime;
          lowerText = trim (toLowerCase E text);
          parsedDate = parseDate E lowerText now;
          parsedTime = timePatterns E lowerText currentDateTime;
          hasDate = (parsedDate \<noteq> None);
          hasTime = (parsedTime \<noteq> None)
      in \<lparr>success = True, r_date = parsedDate, r_time = parsedTime,
          hasDate = hasDate, hasTime = hasTime,
          r_formatted = (if hasDate \<and> hasTime
                         then Some (the parsedDate @ ''::'' @ the parsedTime) else None),
          needsDate = \<not> hasDate, needsTime = \<not> hasTime,
          complete = False, partial = (hasDate \<noteq> hasTime), immediate = False\<rparr>)"

definition parseTimeExpression :: "env \<Rightarrow> jsstring \<Rightarrow> moment \<Rightarrow> time_parse_result" where
  "parseTimeExpression E text currentDateTime =
     (let lowerText = toLowerCase E text
      in if isImmediate E lowerText
         then (let currentDate = format_DDMMYYYY currentDateTime;
                   currentTime = format_HHmm currentDateTime;
                   formatted = currentDate @ ''::'' @ currentTime
               in \<lparr>success = True, r_date = Some currentDate, r_time = Some currentTime,
                   hasDate = True, hasTime = True, r_formatted = Some formatted,
                   needsDate = False, needsTime = False,
                   complete = True, partial = False, immediate = True\<rparr>)
         else (let result = parseTimeWithTinyLlama E text currentDateTime
               in if success result
                  then (if hasDate result \<and> hasTime result
                        then \<lparr>success = True, r_date = r_date result, r_time = r_time result,
                              hasDate = hasDate result, hasTime = hasTime result,
                              r_formatted = r_formatted result,
                              needsDate = False, needsTime = False,
                              complete = True, partial = False, immediate = False\<rparr>
                        else \<lparr>success = True, r_date = r_date result, r_time = r_time result,
                              hasDate = hasDate result, hasTime = hasTime result,
                              r_formatted = None,
                              needsDate = needsDate result, needsTime = needsTime result,
                              complete = False, partial = True, immediate = False\<rparr>)
                  else \<lparr>success = False, r_date = Some (format_DDMMYYYY currentDateTime),
                        r_time = Some ''14:00'', hasDate = False, hasTime = False,
                        r_formatted = Some (format_DDMMYYYY currentDateTime @ ''::14:00''),
                        needsDate = False, needsTime = False,
                        complete = False, partial = False, immediate = False\<rparr>))"

text \<open>The keyword pattern of the past-time check; it is matched against the original text.\<close>

definition pastCheckImmediateKeywords :: "string list" where
  "pastCheckImmediateKeywords =
     [''now'', ''right now'', ''immediately'', ''asap'', ''as soon as possible'',
      ''straight away'', ''right away'', ''this instant'', ''this moment'', ''at once'',
      ''instantly'']"

definition isDateTimeInPast :: "env \<Rightarrow> string \<Rightarrow> string \<Rightarrow> moment \<Rightarrow> jsstring \<Rightarrow> bool" where
  "isDateTimeInPast E date time currentDateTime originalText =
     (if regexTest (toUpperCase1 E) True pastCheckImmediateKeywords originalText then False
      else (let bufferTime = addMinutes currentDateTime (- 1)
            in case momentParse E (date @ '' '' @ time) of
                 None \<Rightarrow> False
               | Some targetDateTime \<Rightarrow> targetDateTime < bufferTime))"

text \<open>The guard of \<open>handleCallTimeResponse\<close> in front of the conflict check: a complete
  result flagged immediate is never handed to the past-time check.\<close>

definition pastTimeRejected :: "env \<Rightarrow> time_parse_result \<Rightarrow> moment \<Rightarrow> jsstring \<Rightarrow> bool" where
  "pastTimeRejected E timeParseResult currentDateTime body =
     (\<not> immediate timeParseResult \<and>
      isDateTimeInPast E (the (r_date timeParseResult)) (the (r_time timeParseResult))
        currentDateTime body)"

section \<open>Files, maps and objects\<close>

text \<open>
  A JSON file as the code meets it: absent; present but not accessible (for instance a
  directory in its place), so that reading it and writing it both throw; present with
  text that \<open>JSON.parse\<close> rejects; or holding a value.
\<close>

datatype 'a json_file = Missing | Unreadable | Garbled | Parsed 'a

datatype js_error = ReadError | SyntaxError | TypeError | WriteError

text \<open>\<open>JSON.parse(fs.readFileSync(...))\<close>: each exception is a value.\<close>

definition readJson :: "'a json_file \<Rightarrow> js_error + 'a" where
  "readJson f =
     (case f of
        Missing \<Rightarrow> Inl ReadError
      | Unreadable \<Rightarrow> Inl ReadError
      | Garbled \<Rightarrow> Inl SyntaxError
      | Parsed v \<Rightarrow> Inr v)"

text \<open>\<open>fs.writeFileSync(..., JSON.stringify(v))\<close>: the new state of the file, or the
  exception when the path is not accessible.\<close>

definition writeJson :: "'a json_file \<Rightarrow> 'a \<Rightarrow> js_error + 'a json_file" where
  "writeJson f v = (if f = Unreadable then Inl WriteError else Inr (Parsed v))"

text \<open>A \<open>Map\<close> keeps its keys in insertion order; \<open>set\<close> on a present key keeps its place.\<close>

fun mapSet :: "'k \<Rightarrow> 'v \<Rightarrow> ('k \<times> 'v) list \<Rightarrow> ('k \<times> 'v) list" where
  "mapSet k v [] = [(k, v)]"
| "mapSet k v ((k', v') # m) = (if k' = k then (k, v) # m else (k', v') # mapSet k v m)"

definition mapDelete :: "'k \<Rightarrow> ('k \<times> 'v) list \<Rightarrow> ('k \<times> 'v) list" where
  "mapDelete k m = filter (\<lambda>kv. fst kv \<noteq> k) m"

text \<open>
  A plain object is the list of its entries in the order of \<open>Object.entries\<close>: the keys
  that are array indices (canonical decimal numbers below \<open>2^32 - 1\<close>) in ascending
  order, then the other keys in insertion order.
\<close>

definition isDigit :: "char \<Rightarrow> bool" where
  "isDigit c = (48 \<le> (of_char c :: nat) \<and> (of_char c :: nat) \<le> 57)"

definition decimalValue :: "string \<Rightarrow> nat" where
  "decimalValue k = foldl (\<lambda>a c. 10 * a + (of_char c - 48)) 0 k"

definition isArrayIndex :: "string \<Rightarrow> bool" where
  "isArrayIndex k =
     (k \<noteq> [] \<and> list_all isDigit k \<and> (k = ''0'' \<or> hd k \<noteq> CHR ''0'') \<and>
      decimalValue k < 4294967295)"

definition indexBefore :: "string \<Rightarrow> string \<Rightarrow> bool" where
  "indexBefore k k' = (isArrayIndex k' \<and> decimalValue k' < decimalValue k)"

definition objSet :: "string \<Rightarrow> 'v \<Rightarrow> (string \<times> 'v) list \<Rightarrow> (string \<times> 'v) list" where
  "objSet k v obj =
     (if k \<in> set (map fst obj)
      then map (\<lambda>kv. if fst kv = k then (k, v) else kv) obj
      else if isArrayIndex k
      then takeWhile (\<lambda>kv. indexBefore k (fst kv)) obj @ [(k, v)]
             @ dropWhile (\<lambda>kv. indexBefore k (fst kv)) obj
      else obj @ [(k, v)])"

definition objDelete :: "string \<Rightarrow> (string \<times> 'v) list \<Rightarrow> (string \<times> 'v) list" where
  "objDelete k obj = filter (\<lambda>kv. fst kv \<noteq> k) obj"

section \<open>Booking table and conflict detector\<close>

text \<open>A record of the booking table. A field that the stored object lacks is \<open>None\<close>.\<close>

record schedule =
  date :: "string option"
  time :: "string option"
  status :: "string option"
  sch_formatted :: "string option"
  sch_originalRequest :: "jsstring option"
  sch_originalText :: "jsstring option"
  sch_confirmedAt :: "int option"
  sch_scheduledAt :: "int option"
  sch_immediate :: "bool option"
  sch_createdAt :: "int option"

record conflict_result =
  hasConflict :: bool
  conflictingPhone :: "string option"
  conflictingDateTime :: "string option"
  conflictingDate :: "string option"
  conflictingTime :: "string option"
  timeDifference :: "int option"

definition noConflict :: conflict_result where
  "noConflict =
     \<lparr>hasConflict = False, conflictingPhone = None, conflictingDateTime = None,
      conflictingDate = None, conflictingTime = None, timeDifference = None\<rparr>"

text \<open>A value inside a template string: a missing field reads \<open>undefined\<close>.\<close>

definition templateValue :: "string option \<Rightarrow> string" where
  "templateValue x = (case x of None \<Rightarrow> ''undefined'' | Some s \<Rightarrow> s)"

text \<open>\<open>a.diff(b, 'minutes')\<close>: the difference in milliseconds over 60000, truncated
  towards zero.\<close>

definition momentDiffMinutes :: "moment \<Rightarrow> moment \<Rightarrow> int" where
  "momentDiffMinutes a b =
     (if a - b < 0 then - ((b - a) div msPerMinute) else (a - b) div msPerMinute)"

text \<open>\<open>excludePhoneNumber && phoneNumber === excludePhoneNumber\<close>: null and the empty
  string are falsy and exclude nothing.\<close>

definition excludes :: "string option \<Rightarrow> string \<Rightarrow> bool" where
  "excludes excludePhoneNumber phoneNumber =
     (case excludePhoneNumber of None \<Rightarrow> False | Some e \<Rightarrow> e \<noteq> [] \<and> phoneNumber = e)"

definition cancelledOrCompleted :: "string option \<Rightarrow> bool" where
  "cancelledOrCompleted st =
     (case st of
        None \<Rightarrow> False
      | Some s \<Rightarrow> s \<noteq> [] \<and> (s = ''cancelled'' \<or> s = ''completed''))"

text \<open>The object \<open>conflictDetails\<close> reported for a booking within the window.\<close>

definition conflictDetails :: "env \<Rightarrow> moment \<Rightarrow> moment \<Rightarrow> string \<Rightarrow> schedule \<Rightarrow> conflict_result" where
  "conflictDetails E newDateTime existingDateTime phoneNumber schedule =
     \<lparr>hasConflict = True, conflictingPhone = Some phoneNumber,
      conflictingDateTime = Some (momentFormatLong E existingDateTime),
      conflictingDate = date schedule, conflictingTime = time schedule,
      timeDifference = Some \<bar>momentDiffMinutes newDateTime existingDateTime\<bar>\<rparr>"

text \<open>The loop over \<open>Object.entries(allSchedules)\<close>.\<close>

fun scanSchedules ::
  "env \<Rightarrow> moment \<Rightarrow> string option \<Rightarrow> (string \<times> schedule) list \<Rightarrow> conflict_result" where
  "scanSchedules E newDateTime excludePhoneNumber [] = noConflict"
| "scanSchedules E newDateTime excludePhoneNumber ((phoneNumber, schedule) # rest) =
     (if excludes excludePhoneNumber phoneNumber
      then scanSchedules E newDateTime excludePhoneNumber rest
      else if cancelledOrCompleted (status schedule)
      then scanSchedules E newDateTime excludePhoneNumber rest
      else (case momentParse E (templateValue (date schedule) @ '' '' @ templateValue (time schedule)) of
              None \<Rightarrow> scanSchedules E newDateTime excludePhoneNumber rest
            | Some existingDateTime \<Rightarrow>
                if \<bar>momentDiffMinutes newDateTime existingDateTime\<bar> < 15
                then conflictDetails E newDateTime existingDateTime phoneNumber schedule
                else scanSchedules E newDateTime excludePhoneNumber rest))"

text \<open>The body of the \<open>try\<close> block of \<open>checkTimeConflict\<close>, with its exceptions as values.\<close>

definition checkTimeConflictBody ::
  "env \<Rightarrow> (string \<times> schedule) list json_file \<Rightarrow> string \<Rightarrow> string \<Rightarrow> string option
     \<Rightarrow> js_error + conflict_result" where
  "checkTimeConflictBody E callScheduleFile newDate newTime excludePhoneNumber =
     (if callScheduleFile = Missing then Inr noConflict
      else (case readJson callScheduleFile of
              Inl e \<Rightarrow> Inl e
            | Inr allSchedules \<Rightarrow>
                (case momentParse E (newDate @ '' '' @ newTime) of
                   None \<Rightarrow> Inr noConflict
                 | Some newDateTime \<Rightarrow>
                     Inr (scanSchedules E newDateTime excludePhoneNumber allSchedules))))"

text \<open>\<open>checkTimeConflict\<close>: the \<open>catch\<close> clause answers every exception with no conflict.\<close>

definition checkTimeConflict ::
  "env \<Rightarrow> (string \<times> schedule) list json_file \<Rightarrow> string \<Rightarrow> string \<Rightarrow> string option
     \<Rightarrow> conflict_result" where
  "checkTimeConflict E callScheduleFile newDate newTime excludePhoneNumber =
     (case checkTimeConflictBody E callScheduleFile newDate newTime excludePhoneNumber of
        Inl e \<Rightarrow> noConflict
      | Inr r \<Rightarrow> r)"

text \<open>\<open>saveCallSchedule\<close>: a table that cannot be read or parsed is replaced by an
  empty one; the new record takes the stamp \<open>createdAt\<close> and the status \<open>scheduled\<close>. A
  failed write is caught and logged, and the file stays as it was. The result is the new
  state of the file.\<close>

definition saveCallSchedule ::
  "(string \<times> schedule) list json_file \<Rightarrow> string \<Rightarrow> schedule \<Rightarrow> int
     \<Rightarrow> (string \<times> schedule) list json_file" where
  "saveCallSchedule callScheduleFile phoneNumber scheduleData now =
     (case writeJson callScheduleFile
             (objSet phoneNumber
                (scheduleData\<lparr>status := Some ''scheduled'', sch_createdAt := Some now\<rparr>)
                (if callScheduleFile = Missing then []
                 else (case readJson callScheduleFile of
                         Inl e \<Rightarrow> []
                       | Inr allSchedules \<Rightarrow> allSchedules))) of
        Inl e \<Rightarrow> callScheduleFile
      | Inr written \<Rightarrow> written)"

definition extractPhoneNumber :: "string \<Rightarrow> string" where
  "extractPhoneNumber whatsappId = takeWhile (\<lambda>c. c \<noteq> CHR ''@'') whatsappId"

text \<open>
  The conflict relation in the words of the specification: the booking belongs to an
  identifier other than the excluded one, its status is neither cancelled nor completed,
  its date and time parse, and the instant lies less than 15 minutes from the candidate,
  on either side.
\<close>

definition withinWindow :: "env \<Rightarrow> moment \<Rightarrow> string option \<Rightarrow> string \<times> schedule \<Rightarrow> bool" where
  "withinWindow E candidate excluded entry =
     (excluded \<noteq> Some (fst entry) \<and>
      status (snd entry) \<noteq> Some ''cancelled'' \<and> status (snd entry) \<noteq> Some ''completed'' \<and>
      (case momentParse E (templateValue (date (snd entry)) @ '' '' @ templateValue (time (snd entry))) of
         None \<Rightarrow> False
       | Some existing \<Rightarrow> \<bar>candidate - existing\<bar> < 15 * msPerMinute))"

text \<open>What is reported for the booking found: its identifier, its stored date and time,
  the rendering of its instant and the whole minutes between it and the candidate.\<close>

definition reportOf :: "env \<Rightarrow> moment \<Rightarrow> string \<times> schedule \<Rightarrow> conflict_result" where
  "reportOf E candidate entry =
     \<lparr>hasConflict = True, conflictingPhone = Some (fst entry),
      conflictingDateTime =
        map_option (momentFormatLong E)
          (momentParse E (templateValue (date (snd entry)) @ '' '' @ templateValue (time (snd entry)))),
      conflictingDate = date (snd entry), conflictingTime = time (snd entry),
      timeDifference =
        map_option (\<lambda>existing. \<bar>candidate - existing\<bar> div msPerMinute)
          (momentParse E (templateValue (date (snd entry)) @ '' '' @ templateValue (time (snd entry))))\<rparr>"

section \<open>Sessions\<close>

text \<open>The free-form bag \<open>data\<close> holds a value of the JSON data model.\<close>

datatype json =
    JNull
  | JBool bool
  | JNumber real
  | JString jsstring
  | JArray "json list"
  | JObject "(string \<times> json) list"

record partial_schedule =
  pt_date :: "string option"
  pt_time :: "string option"
  pt_hasDate :: bool
  pt_hasTime :: bool
  pt_originalText :: jsstring

record pending_schedule =
  p_date :: string
  p_time :: string
  p_formatted :: "string option"
  p_originalText :: jsstring

record session_metadata =
  saveCount :: "nat option"
  messageCount :: "nat option"
  lastSaved :: "int option"

text \<open>
  A session object. The fields after \<open>metadata\<close> are the ones that the handlers add to
  the object; \<open>None\<close> stands for a field that is absent or null. Dates are instants in
  milliseconds.
\<close>

record session =
  state :: string
  currentQuestion :: string
  data :: json
  createdAt :: int
  lastActivity :: int
  waitingForFreeText :: bool
  freeTextContext :: "string option"
  metadata :: session_metadata
  clarificationAttempts :: "nat option"
  partialSchedule :: "partial_schedule option"
  pendingSchedule :: "pending_schedule option"
  finalSchedule :: "schedule option"
  completedAt :: "int option"

definition IDLE :: string where "IDLE = ''idle''"
definition GREETING :: string where "GREETING = ''greeting''"
definition WAITING_INITIAL_RESPONSE :: string where
  "WAITING_INITIAL_RESPONSE = ''waiting_initial_response''"
definition ASKING_REASON :: string where "ASKING_REASON = ''asking_reason''"
definition ASKING_CALL_TIME :: string where "ASKING_CALL_TIME = ''asking_call_time''"
definition ASKING_DATE :: string where "ASKING_DATE = ''asking_date''"
definition ASKING_TIME :: string where "ASKING_TIME = ''asking_time''"
definition CONFIRMING_SCHEDULE :: string where "CONFIRMING_SCHEDULE = ''confirming_schedule''"
definition COMPLETED :: string where "COMPLETED = ''completed''"
definition CLARIFYING_RESPONSE :: string where "CLARIFYING_RESPONSE = ''clarifying_response''"

text \<open>The object that \<open>serializeSession\<close> builds; an ISO date string is the instant it
  denotes. In a stored entry the block \<open>metadata\<close> may be missing.\<close>

record serialized_metadata =
  ser_saveCount :: nat
  ser_lastSaved :: int

record serialized_session =
  ser_state :: string
  ser_currentQuestion :: string
  ser_data :: json
  ser_createdAt :: int
  ser_lastActivity :: int
  ser_waitingForFreeText :: bool
  ser_freeTextContext :: "string option"
  ser_metadata :: "serialized_metadata option"

definition serializeSession :: "session \<Rightarrow> int \<Rightarrow> serialized_session" where
  "serializeSession session now =
     \<lparr>ser_state = state session,
      ser_currentQuestion = currentQuestion session,
      ser_data = data session,
      ser_createdAt = createdAt session,
      ser_lastActivity = lastActivity session,
      ser_waitingForFreeText = waitingForFreeText session,
      ser_freeTextContext =
        (case freeTextContext session of
           None \<Rightarrow> None
         | Some c \<Rightarrow> if c = [] then None else Some c),
      ser_metadata =
        Some \<lparr>ser_saveCount = (case saveCount (metadata session) of None \<Rightarrow> 0 | Some n \<Rightarrow> n) + 1,
              ser_lastSaved = now\<rparr>\<rparr>"

text \<open>The object that \<open>loadSessionsFromFile\<close> puts into the map for one stored entry: the
  stored fields, the two dates turned back into instants, and a default for a missing
  block \<open>metadata\<close>.\<close>

definition restoreSession :: "serialized_session \<Rightarrow> session" where
  "restoreSession sessionData =
     \<lparr>state = ser_state sessionData,
      currentQuestion = ser_currentQuestion sessionData,
      data = ser_data sessionData,
      createdAt = ser_createdAt sessionData,
      lastActivity = ser_lastActivity sessionData,
      waitingForFreeText = ser_waitingForFreeText sessionData,
      freeTextContext = ser_freeTextContext sessionData,
      metadata =
        (case ser_metadata sessionData of
           Some m \<Rightarrow> \<lparr>saveCount = Some (ser_saveCount m), messageCount = None,
                       lastSaved = Some (ser_lastSaved m)\<rparr>
         | None \<Rightarrow> \<lparr>saveCount = Some 0, messageCount = Some 0, lastSaved = None\<rparr>),
      clarificationAttempts = None,
      partialSchedule = None,
      pendingSchedule = None,
      finalSchedule = None,
      completedAt = None\<rparr>"

section \<open>Session store\<close>

record save_info =
  timestamp :: int
  reason :: string

datatype reply =
    ConfigMessage string
  | SlotJustBooked string

text \<open>
  The state that the handlers share: the map of sessions, the manager's queue of pending
  saves and its armed timer (\<open>None\<close> when no timer is pending, else its delay in
  milliseconds), the two files, and the texts handed to the transport, which is taken
  to accept them (the transport is outside the engine).
\<close>

record world =
  userSessions :: "(string \<times> session) list"
  saveQueue :: "(string \<times> save_info) list"
  saveTimeout :: "nat option"
  lastSaveTime :: "int option"
  sessionsFile :: "(string \<times> serialized_session) list json_file"
  callScheduleFile :: "(string \<times> schedule) list json_file"
  outbox :: "(string \<times> reply) list"

definition debounceDelay :: nat where "debounceDelay = 2000"
definition maxBatchSize :: nat where "maxBatchSize = 10"

definition isCriticalEvent :: "(string \<times> save_info) list \<Rightarrow> bool" where
  "isCriticalEvent queue =
     list_ex (\<lambda>entry. reason (snd entry) = ''state_change'' \<or> reason (snd entry) = ''completion'') queue"

definition calculateDynamicDelay :: "(string \<times> save_info) list \<Rightarrow> nat" where
  "calculateDynamicDelay queue =
     (if length queue \<ge> maxBatchSize then 500
      else if length queue > 5 then 1000
      else debounceDelay)"

definition storeEntry ::
  "(string \<times> session) list \<Rightarrow> int \<Rightarrow> (string \<times> serialized_session) list \<Rightarrow> string
     \<Rightarrow> (string \<times> serialized_session) list" where
  "storeEntry sessions now allSessions whatsappId =
     (case map_of sessions whatsappId of
        Some session \<Rightarrow> objSet whatsappId (serializeSession session now) allSessions
      | None \<Rightarrow> objDelete whatsappId allSessions)"

text \<open>\<open>saveSessionsToFile\<close> throws what reading the present file or writing the new
  table throws.\<close>

definition saveSessionsToFile :: "world \<Rightarrow> string list \<Rightarrow> int \<Rightarrow> js_error + world" where
  "saveSessionsToFile w whatsappIds now =
     (case (if sessionsFile w = Missing then Inr [] else readJson (sessionsFile w)) of
        Inl e \<Rightarrow> Inl e
      | Inr allSessions \<Rightarrow>
          (case writeJson (sessionsFile w)
                  (foldl (storeEntry (userSessions w) now) allSessions whatsappIds) of
             Inl e \<Rightarrow> Inl e
           | Inr written \<Rightarrow> Inr (w\<lparr>sessionsFile := written\<rparr>)))"

definition executeSave :: "world \<Rightarrow> int \<Rightarrow> world" where
  "executeSave w now =
     (if saveQueue w = [] then w
      else (case saveSessionsToFile w (map fst (saveQueue w)) now of
              Inl e \<Rightarrow> w
            | Inr w' \<Rightarrow> w'\<lparr>saveQueue := [], lastSaveTime := Some now\<rparr>))"

definition debounceSave :: "world \<Rightarrow> int \<Rightarrow> world" where
  "debounceSave w now =
     (if isCriticalEvent (saveQueue w)
      then executeSave (w\<lparr>saveTimeout := None\<rparr>) now
      else w\<lparr>saveTimeout := Some (calculateDynamicDelay (saveQueue w))\<rparr>)"

definition markForSave :: "world \<Rightarrow> string \<Rightarrow> string \<Rightarrow> int \<Rightarrow> world" where
  "markForSave w whatsappId why now =
     debounceSave
       (w\<lparr>saveQueue := mapSet whatsappId \<lparr>timestamp = now, reason = why\<rparr> (saveQueue w)\<rparr>) now"

definition forceSave :: "world \<Rightarrow> int \<Rightarrow> js_error + world" where
  "forceSave w now = saveSessionsToFile w (map fst (userSessions w)) now"

text \<open>The sweep of \<open>cleanupExpiredSessions\<close>: every session whose last activity is older
  than the configured number of days gets the notice and is deleted.\<close>

definition expired :: "env \<Rightarrow> int \<Rightarrow> session \<Rightarrow> bool" where
  "expired E now session =
     (now - lastActivity session > sessionTimeoutDays E * 24 * 60 * 60 * 1000)"

definition sweepSession :: "env \<Rightarrow> int \<Rightarrow> world \<Rightarrow> string \<times> session \<Rightarrow> world" where
  "sweepSession E now w entry =
     (if expired E now (snd entry)
      then w\<lparr>outbox := outbox w @ [(fst entry, ConfigMessage ''messages.timeout.sessionEnded'')],
             userSessions := mapDelete (fst entry) (userSessions w)\<rparr>
      else w)"

text \<open>The result of the sweep and the exception that the closing \<open>forceSave\<close> may throw.\<close>

definition cleanupExpiredSessions :: "env \<Rightarrow> world \<Rightarrow> int \<Rightarrow> world \<times> js_error option" where
  "cleanupExpiredSessions E w now =
     (if list_ex (\<lambda>entry. expired E now (snd entry)) (userSessions w)
      then (case forceSave (foldl (sweepSession E now) w (userSessions w)) now of
              Inl e \<Rightarrow> (foldl (sweepSession E now) w (userSessions w), Some e)
            | Inr w' \<Rightarrow> (w', None))
      else (foldl (sweepSession E now) w (userSessions w), None))"

definition restoreEntry :: "world \<Rightarrow> string \<times> serialized_session \<Rightarrow> world" where
  "restoreEntry w entry =
     w\<lparr>userSessions := mapSet (fst entry) (restoreSession (snd entry)) (userSessions w)\<rparr>"

definition loadSessionsFromFile :: "env \<Rightarrow> world \<Rightarrow> int \<Rightarrow> world" where
  "loadSessionsFromFile E w now =
     (if sessionsFile w = Missing then w
      else (case readJson (sessionsFile w) of
              Inl e \<Rightarrow> w
            | Inr sessionsData \<Rightarrow> fst (cleanupExpiredSessions E (foldl restoreEntry w sessionsData) now)))"

text \<open>The argument \<open>updates\<close> of \<open>createOrUpdateSession\<close>: \<open>None\<close> for a key that the object
  literal does not have; for the two schedule fields \<open>Some None\<close> is the key set to null.\<close>

record updates =
  u_state :: "string option"
  u_currentQuestion :: "string option"
  u_data :: "json option"
  u_waitingForFreeText :: "bool option"
  u_clarificationAttempts :: "nat option"
  u_partialSchedule :: "partial_schedule option option"
  u_pendingSchedule :: "pending_schedule option option"
  u_finalSchedule :: "schedule option"
  u_completedAt :: "int option"

definition noUpdates :: updates where
  "noUpdates =
     \<lparr>u_state = None, u_currentQuestion = None, u_data = None, u_waitingForFreeText = None,
      u_clarificationAttempts = None, u_partialSchedule = None, u_pendingSchedule = None,
      u_finalSchedule = None, u_completedAt = None\<rparr>"

definition assigned :: "'a option \<Rightarrow> 'a \<Rightarrow> 'a" where
  "assigned new old = (case new of None \<Rightarrow> old | Some v \<Rightarrow> v)"

definition assignedOpt :: "'a option \<Rightarrow> 'a option \<Rightarrow> 'a option" where
  "assignedOpt new old = (case new of None \<Rightarrow> old | Some v \<Rightarrow> Some v)"

text \<open>\<open>Object.assign(session, updates)\<close>.\<close>

definition applyUpdates :: "session \<Rightarrow> updates \<Rightarrow> session" where
  "applyUpdates s u =
     s\<lparr>state := assigned (u_state u) (state s),
       currentQuestion := assigned (u_currentQuestion u) (currentQuestion s),
       data := assigned (u_data u) (data s),
       waitingForFreeText := assigned (u_waitingForFreeText u) (waitingForFreeText s),
       clarificationAttempts := assignedOpt (u_clarificationAttempts u) (clarificationAttempts s),
       partialSchedule := assigned (u_partialSchedule u) (partialSchedule s),
       pendingSchedule := assigned (u_pendingSchedule u) (pendingSchedule s),
       finalSchedule := assignedOpt (u_finalSchedule u) (finalSchedule s),
       completedAt := assignedOpt (u_completedAt u) (completedAt s)\<rparr>"

definition getSaveReason :: "updates \<Rightarrow> string" where
  "getSaveReason u =
     (if u_state u \<noteq> None then ''state_change''
      else if u_currentQuestion u \<noteq> None then ''question_change''
      else if u_data u \<noteq> None then ''data_update''
      else if u_waitingForFreeText u \<noteq> None then ''free_text_change''
      else ''activity'')"

definition newSession :: "int \<Rightarrow> session" where
  "newSession now =
     \<lparr>state = GREETING, currentQuestion = ''greeting_confirmation'', data = JObject [],
      createdAt = now, lastActivity = now, waitingForFreeText = False,
      freeTextContext = None,
      metadata = \<lparr>saveCount = Some 0, messageCount = Some 0, lastSaved = None\<rparr>,
      clarificationAttempts = None, partialSchedule = None, pendingSchedule = None,
      finalSchedule = None, completedAt = None\<rparr>"

definition createOrUpdateSession :: "world \<Rightarrow> string \<Rightarrow> updates \<Rightarrow> int \<Rightarrow> world" where
  "createOrUpdateSession w whatsappId u now =
     (case map_of (userSessions w) whatsappId of
        Some existingSession \<Rightarrow>
          markForSave
            (w\<lparr>userSessions :=
                 mapSet whatsappId ((applyUpdates existingSession u)\<lparr>lastActivity := now\<rparr>)
                   (userSessions w)\<rparr>)
            whatsappId (getSaveReason u) now
      | None \<Rightarrow>
          markForSave
            (w\<lparr>userSessions := mapSet whatsappId (applyUpdates (newSession now) u) (userSessions w)\<rparr>)
            whatsappId ''session_created'' now)"

section \<open>Conversation driver\<close>

record message =
  msg_from :: string
  msg_body :: jsstring

definition messageReply :: "world \<Rightarrow> message \<Rightarrow> reply \<Rightarrow> world" where
  "messageReply w message r = w\<lparr>outbox := outbox w @ [(msg_from message, r)]\<rparr>"

text \<open>\<open>(session.clarificationAttempts || 0) + 1\<close>.\<close>

definition nextAttempt :: "session \<Rightarrow> nat" where
  "nextAttempt session = (case clarificationAttempts session of None \<Rightarrow> 0 | Some n \<Rightarrow> n) + 1"

definition handleInitialResponse ::
  "env \<Rightarrow> int \<Rightarrow> world \<Rightarrow> message \<Rightarrow> session \<Rightarrow> jsstring \<Rightarrow> world" where
  "handleInitialResponse E now w message session body =
     (case analyzeSentiment E body ''yes_no_question'' of
        Positive \<Rightarrow>
          createOrUpdateSession
            (messageReply w message (ConfigMessage ''messages.questions.askCallTime''))
            (msg_from message)
            (noUpdates\<lparr>u_state := Some ASKING_CALL_TIME, u_currentQuestion := Some ''call_time''\<rparr>)
            now
      | Negative \<Rightarrow>
          createOrUpdateSession
            (messageReply w message (ConfigMessage ''messages.questions.askReason''))
            (msg_from message)
            (noUpdates\<lparr>u_state := Some ASKING_REASON, u_currentQuestion := Some ''reason''\<rparr>)
            now
      | Neutral \<Rightarrow>
          createOrUpdateSession
            (messageReply w message (ConfigMessage ''messages.questions.askClarification''))
            (msg_from message)
            (noUpdates\<lparr>u_state := Some CLARIFYING_RESPONSE,
                        u_currentQuestion := Some ''clarification'',
                        u_clarificationAttempts := Some (nextAttempt session)\<rparr>)
            now)"

definition handleClarificationResponse ::
  "env \<Rightarrow> int \<Rightarrow> world \<Rightarrow> message \<Rightarrow> session \<Rightarrow> jsstring \<Rightarrow> world" where
  "handleClarificationResponse E now w message session body =
     (case analyzeSentiment E body ''yes_no_question'' of
        Positive \<Rightarrow>
          createOrUpdateSession
            (messageReply w message (ConfigMessage ''messages.questions.askCallTime''))
            (msg_from message)
            (noUpdates\<lparr>u_state := Some ASKING_CALL_TIME, u_currentQuestion := Some ''call_time'',
                        u_clarificationAttempts := Some 0\<rparr>)
            now
      | Negative \<Rightarrow>
          createOrUpdateSession
            (messageReply w message (ConfigMessage ''messages.questions.askReason''))
            (msg_from message)
            (noUpdates\<lparr>u_state := Some ASKING_REASON, u_currentQuestion := Some ''reason'',
                        u_clarificationAttempts := Some 0\<rparr>)
            now
      | Neutral \<Rightarrow>
          createOrUpdateSession
            (messageReply w message (ConfigMessage ''messages.errors.stillUnclear''))
            (msg_from message)
            (noUpdates\<lparr>u_clarificationAttempts := Some (nextAttempt session)\<rparr>)
            now)"

text \<open>The record handed to \<open>saveCallSchedule\<close> at confirmation.\<close>

definition confirmedSchedule :: "pending_schedule \<Rightarrow> int \<Rightarrow> schedule" where
  "confirmedSchedule pending now =
     \<lparr>date = Some (p_date pending), time = Some (p_time pending), status = None,
      sch_formatted = p_formatted pending,
      sch_originalRequest = Some (p_originalText pending), sch_originalText = None,
      sch_confirmedAt = Some now, sch_scheduledAt = None, sch_immediate = None,
      sch_createdAt = None\<rparr>"

text \<open>\<open>handleScheduleConfirmation\<close>. Reading a field of a missing \<open>pendingSchedule\<close> throws;
  the \<open>catch\<close> clause answers with the request to confirm and changes nothing else.\<close>

definition handleScheduleConfirmation ::
  "env \<Rightarrow> int \<Rightarrow> world \<Rightarrow> message \<Rightarrow> session \<Rightarrow> jsstring \<Rightarrow> world" where
  "handleScheduleConfirmation E now w message session body =
     (if analyzeSentiment E body ''yes_no_question'' = Positive
      then (case pendingSchedule session of
              None \<Rightarrow> messageReply w message (ConfigMessage ''messages.errors.confirmationNeeded'')
            | Some pending \<Rightarrow>
                if hasConflict
                     (checkTimeConflict E (callScheduleFile w) (p_date pending) (p_time pending)
                        (Some (extractPhoneNumber (msg_from message))))
                then createOrUpdateSession
                       (messageReply
                          (messageReply w message
                             (SlotJustBooked
                                (templateValue
                                   (conflictingDateTime
                                      (checkTimeConflict E (callScheduleFile w) (p_date pending)
                                         (p_time pending)
                                         (Some (extractPhoneNumber (msg_from message))))))))
                          message (ConfigMessage ''messages.questions.askDate''))
                       (msg_from message)
                       (noUpdates\<lparr>u_state := Some ASKING_DATE, u_currentQuestion := Some ''date'',
                                   u_partialSchedule := Some None, u_pendingSchedule := Some None\<rparr>)
                       now
                else markForSave
                       (createOrUpdateSession
                          (messageReply
                             (w\<lparr>callScheduleFile :=
                                  saveCallSchedule (callScheduleFile w)
                                    (extractPhoneNumber (msg_from message))
                                    (confirmedSchedule pending now) now\<rparr>)
                             message (ConfigMessage ''messages.success.callScheduled''))
                          (msg_from message)
                          (noUpdates\<lparr>u_state := Some COMPLETED, u_currentQuestion := Some ''completed''\<rparr>)
                          now)
                       (msg_from message) ''completion'' now)
      else createOrUpdateSession
             (messageReply w message (ConfigMessage ''messages.questions.askCallTime''))
             (msg_from message)
             (noUpdates\<lparr>u_state := Some ASKING_CALL_TIME, u_currentQuestion := Some ''call_time'',
                         u_pendingSchedule := Some None\<rparr>)
             now)"

text \<open>The \<open>switch\<close> on the state of the session. The handlers of the four asking states are
  the parameter \<open>asking\<close>; a session in any other state is left alone.\<close>

definition dispatchState ::
  "env \<Rightarrow> (world \<Rightarrow> message \<Rightarrow> session \<Rightarrow> jsstring \<Rightarrow> world) \<Rightarrow> int \<Rightarrow> world \<Rightarrow> message \<Rightarrow> session
     \<Rightarrow> jsstring \<Rightarrow> world" where
  "dispatchState E asking now w message session body =
     (if state session = GREETING then handleInitialResponse E now w message session body
      else if state session = WAITING_INITIAL_RESPONSE
      then handleInitialResponse E now w message session body
      else if state session = CLARIFYING_RESPONSE
      then handleClarificationResponse E now w message session body
      else if state session = ASKING_REASON \<or> state session = ASKING_CALL_TIME \<or>
              state session = ASKING_DATE \<or> state session = ASKING_TIME
      then asking w message session body
      else if state session = CONFIRMING_SCHEDULE
      then handleScheduleConfirmation E now w message session body
      else w)"

section \<open>A reference instance of the parameters\<close>

text \<open>
  For evaluation on concrete inputs the parameters are instantiated: texts are ASCII
  (case mapping on \<open>A\<close> to \<open>Z\<close> only), the date parser accepts exactly the well-formed
  renderings \<open>DD/MM/YYYY HH:mm\<close> of valid dates and times, and the classifier model gives
  one fixed answer.
\<close>

definition asciiToLowerCase :: "jsstring \<Rightarrow> jsstring" where
  "asciiToLowerCase s = map (\<lambda>c. if 65 \<le> c \<and> c \<le> 90 then c + 32 else c) s"

definition daysInMonth :: "int \<Rightarrow> int \<Rightarrow> int" where
  "daysInMonth y m =
     (if m = 2 then (if y mod 4 = 0 \<and> (y mod 100 \<noteq> 0 \<or> y mod 400 = 0) then 29 else 28)
      else if m = 4 \<or> m = 6 \<or> m = 9 \<or> m = 11 then 30
      else 31)"

definition daysOfEra :: "int \<Rightarrow> int \<Rightarrow> int \<Rightarrow> int" where
  "daysOfEra y m d =
     (y div 400) * 146097
       + ((y mod 400) * 365 + (y mod 400) div 4 - (y mod 400) div 100
          + ((153 * (if m > 2 then m - 3 else m + 9) + 2) div 5 + d - 1))
       - 719468"

definition daysFromCivil :: "int \<Rightarrow> int \<Rightarrow> int \<Rightarrow> int" where
  "daysFromCivil y m d = daysOfEra (if m \<le> 2 then y - 1 else y) m d"

definition civilToMoment :: "int \<Rightarrow> int \<Rightarrow> int \<Rightarrow> int \<Rightarrow> int \<Rightarrow> moment option" where
  "civilToMoment d m y h mi =
     (if 1 \<le> m \<and> m \<le> 12 \<and> 1 \<le> d \<and> d \<le> daysInMonth y m \<and> h \<le> 23 \<and> mi \<le> 59
      then Some (daysFromCivil y m d * msPerDay + h * 3600000 + mi * msPerMinute)
      else None)"

definition strictMomentParse :: "string \<Rightarrow> moment option" where
  "strictMomentParse s =
     (if length s = 16 \<and> s ! 2 = CHR ''/'' \<and> s ! 5 = CHR ''/'' \<and> s ! 10 = CHR '' '' \<and>
         s ! 13 = CHR '':'' \<and>
         list_all isDigit (take 2 s @ take 2 (drop 3 s) @ take 4 (drop 6 s) @ take 2 (drop 11 s)
                             @ drop 14 s)
      then civilToMoment (int (decimalValue (take 2 s))) (int (decimalValue (take 2 (drop 3 s))))
             (int (decimalValue (take 4 (drop 6 s)))) (int (decimalValue (take 2 (drop 11 s))))
             (int (decimalValue (drop 14 s)))
      else None)"

definition referenceEnv :: "string \<Rightarrow> real \<Rightarrow> env" where
  "referenceEnv modelLabel modelScore =
     \<lparr>toUpperCase1 = (\<lambda>c. c),
      toLowerCase = asciiToLowerCase,
      sentimentAnalyzer = Some (\<lambda>text. Some \<lparr>label = modelLabel, score = modelScore\<rparr>),
      analyzeKeywordSentiment = (\<lambda>text context. Neutral),
      momentParse = strictMomentParse,
      momentFormatLong = (\<lambda>t. format_DDMMYYYY t @ '' '' @ format_HHmm t),
      otherDatePatterns = (\<lambda>text now. None),
      timePatterns = (\<lambda>text now. None),
      sessionTimeoutDays = 7\<rparr>"

text \<open>The same with a classifier model that is not loaded and a keyword fallback with a
  fixed answer.\<close>

definition fallbackEnv :: "sentiment \<Rightarrow> env" where
  "fallbackEnv answer =
     (referenceEnv [] 0)\<lparr>sentimentAnalyzer := None,
                         analyzeKeywordSentiment := (\<lambda>text context. answer)\<rparr>"

text \<open>A small booking table: a cancelled booking at the candidate's own time, the sender's
  own booking ten minutes before the candidate, and two bookings of other identifiers 14
  minutes after and 14 minutes before it. The second table holds bookings exactly 15
  minutes after and before.\<close>

definition bookingAt :: "string \<Rightarrow> string \<Rightarrow> string \<Rightarrow> schedule" where
  "bookingAt d t st =
     \<lparr>date = Some d, time = Some t, status = Some st, sch_formatted = None,
      sch_originalRequest = None, sch_originalText = None, sch_confirmedAt = None,
      sch_scheduledAt = None, sch_immediate = None, sch_createdAt = None\<rparr>"

definition demoSchedules :: "(string \<times> schedule) list" where
  "demoSchedules =
     [(''911111111111'', bookingAt ''02/11/2026'' ''10:30'' ''cancelled''),
      (''912222222222'', bookingAt ''02/11/2026'' ''10:20'' ''scheduled''),
      (''913333333333'', bookingAt ''02/11/2026'' ''10:44'' ''scheduled''),
      (''914444444444'', bookingAt ''02/11/2026'' ''10:16'' ''scheduled'')]"

definition demoSchedulesApart :: "(string \<times> schedule) list" where
  "demoSchedulesApart =
     [(''915555555555'', bookingAt ''02/11/2026'' ''10:45'' ''scheduled''),
      (''916666666666'', bookingAt ''02/11/2026'' ''10:15'' ''scheduled'')]"

text \<open>A fresh process, and queues of pending saves of ordinary messages.\<close>

definition emptyWorld :: world where
  "emptyWorld =
     \<lparr>userSessions = [], saveQueue = [], saveTimeout = None, lastSaveTime = None,
      sessionsFile = Missing, callScheduleFile = Missing, outbox = []\<rparr>"

definition pendingMessage :: "string \<Rightarrow> string \<times> save_info" where
  "pendingMessage whatsappId = (whatsappId, \<lparr>timestamp = 0, reason = ''message''\<rparr>)"

definition fivePending :: "(string \<times> save_info) list" where
  "fivePending = map pendingMessage [''a@c.us'', ''b@c.us'', ''c@c.us'', ''d@c.us'', ''e@c.us'']"

definition sixPending :: "(string \<times> save_info) list" where
  "sixPending = fivePending @ [pendingMessage ''f@c.us'']"

definition tenPending :: "(string \<times> save_info) list" where
  "tenPending =
     sixPending @ map pendingMessage [''g@c.us'', ''h@c.us'', ''i@c.us'', ''j@c.us'']"

text \<open>A session of one sender in a given state, a world that holds it, and messages of
  that sender.\<close>

definition sessionIn :: "string \<Rightarrow> session" where
  "sessionIn st = (newSession 1793600000000)\<lparr>state := st\<rparr>"

definition demoPending :: pending_schedule where
  "demoPending =
     \<lparr>p_date = ''02/11/2026'', p_time = ''10:30'', p_formatted = Some ''02/11/2026::10:30'',
      p_originalText = js ''monday 10:30''\<rparr>"

definition confirmingSession :: session where
  "confirmingSession =
     (sessionIn CONFIRMING_SCHEDULE)
       \<lparr>pendingSchedule := Some demoPending,
        partialSchedule :=
          Some \<lparr>pt_date = Some ''02/11/2026'', pt_time = None, pt_hasDate = True,
                pt_hasTime = False, pt_originalText = js ''monday''\<rparr>\<rparr>"

definition worldWith :: "session \<Rightarrow> (string \<times> schedule) list \<Rightarrow> world" where
  "worldWith s bookings =
     emptyWorld\<lparr>userSessions := [(''919999999999@c.us'', s)],
                callScheduleFile := Parsed bookings\<rparr>"


definition messageOf :: "string \<Rightarrow> message" where
  "messageOf text = \<lparr>msg_from = ''919999999999@c.us'', msg_body = js text\<rparr>"

definition clarifyingSession :: "nat \<Rightarrow> session" where
  "clarifyingSession n = (sessionIn CLARIFYING_RESPONSE)\<lparr>clarificationAttempts := Some n\<rparr>"

text \<open>The handlers of the four asking states are not needed where a session is in none
  of these states.\<close>

definition noAsking :: "world \<Rightarrow> message \<Rightarrow> session \<Rightarrow> jsstring \<Rightarrow> world" where
  "noAsking w message session body = w"

text \<open>A new process starts with empty maps and an empty queue; of the old process only
  the files remain.\<close>

definition restarted :: "world \<Rightarrow> world" where
  "restarted w =
     w\<lparr>userSessions := [], saveQueue := [], saveTimeout := None, lastSaveTime := None,
       outbox := []\<rparr>"

text \<open>A session whose last activity is eight days old when the process starts again.\<close>

definition staleSession :: session where
  "staleSession = (newSession 1000000)\<lparr>state := ASKING_CALL_TIME\<rparr>"

definition staleWorld :: world where
  "staleWorld = emptyWorld\<lparr>userSessions := [(''919999999999@c.us'', staleSession)]\<rparr>"

definition staleSaved :: world where
  "staleSaved =
     staleWorld\<lparr>sessionsFile :=
       Parsed [(''919999999999@c.us'', serializeSession staleSession 2000000)]\<rparr>"

text \<open>The table that \<open>saveSessionsToFile\<close> writes when the present file can be read.\<close>

definition storedTable :: "world \<Rightarrow> string list \<Rightarrow> int \<Rightarrow> (string \<times> serialized_session) list" where
  "storedTable w whatsappIds now =
     foldl (storeEntry (userSessions w) now)
       (case sessionsFile w of Parsed stored \<Rightarrow> stored | _ \<Rightarrow> []) whatsappIds"

section \<open>Properties of the classifier\<close>

subsection \<open>Trimming does not change a match\<close>

text \<open>An alternative is solid when it is not empty and neither its first nor its last
  character can match a white-space character.\<close>

lemma trimSpace_not_word: "isTrimSpace c \<Longrightarrow> \<not> isWordChar c"
  by (auto simp: isTrimSpace_def isWordChar_def)

lemma altMatchesAt_prev_cong:
  "isWord p = isWord q \<Longrightarrow> altMatchesAt eq p s alt = altMatchesAt eq q s alt"
  by (simp add: altMatchesAt_def wordBoundary_def split: option.splits)

lemma scanFrom_prev_cong:
  "isWord p = isWord q \<Longrightarrow> scanFrom eq alts p s = scanFrom eq alts q s"
  by (cases s) (simp_all add: list_ex_iff altMatchesAt_prev_cong [of p q])

lemma altMatchesAt_leading_space:
  assumes "alt \<noteq> []" and "\<not> eq (hd alt) w"
  shows "\<not> altMatchesAt eq prev (w # s) alt"
  using assms by (cases alt) (simp_all add: altMatchesAt_def)

lemma altMatchesAt_nil: "alt \<noteq> [] \<Longrightarrow> \<not> altMatchesAt eq prev [] alt"
  by (cases alt) (simp_all add: altMatchesAt_def)

lemma scanFrom_leading_space:
  assumes solid: "\<forall>alt\<in>set alts. alt \<noteq> [] \<and> \<not> eq (hd alt) w" and sp: "isTrimSpace w"
  shows "scanFrom eq alts prev (w # s) = scanFrom eq alts None s"
proof -
  have "\<not> list_ex (altMatchesAt eq prev (w # s)) alts"
    using solid by (simp add: list_ex_iff altMatchesAt_leading_space)
  moreover have "scanFrom eq alts (Some w) s = scanFrom eq alts None s"
    using sp by (intro scanFrom_prev_cong) (simp add: isWord_def trimSpace_not_word)
  ultimately show ?thesis by simp
qed

lemma scanFrom_dropWhile:
  assumes "\<forall>alt\<in>set alts. alt \<noteq> [] \<and> (\<forall>w. isTrimSpace w \<longrightarrow> \<not> eq (hd alt) w)"
  shows "scanFrom eq alts None (dropWhile isTrimSpace s) = scanFrom eq alts None s"
proof (induction s)
  case Nil
  show ?case by simp
next
  case (Cons w s)
  show ?case
  proof (cases "isTrimSpace w")
    case True
    with assms have "scanFrom eq alts None (w # s) = scanFrom eq alts None s"
      by (intro scanFrom_leading_space) auto
    with True Cons show ?thesis by simp
  next
    case False
    then show ?thesis by simp
  qed
qed

lemma matchLiteral_length:
  "matchLiteral eq alt s = Some r \<Longrightarrow> length alt + length r = length s"
  by (induction eq alt s rule: matchLiteral.induct) (auto split: if_splits)

lemma matchLiteral_snoc:
  assumes "alt \<noteq> []" and "\<not> eq (last alt) w"
  shows "matchLiteral eq alt (s @ [w]) = map_option (\<lambda>r. r @ [w]) (matchLiteral eq alt s)"
  using assms
proof (induction eq alt s rule: matchLiteral.induct)
  case (1 eq s)
  then show ?case by simp
next
  case (2 eq p ps)
  then show ?case by (cases ps) auto
next
  case (3 eq p ps c cs)
  then show ?case by (cases ps) auto
qed

lemma altMatchesAt_snoc:
  assumes ne: "alt \<noteq> []" and nl: "\<not> eq (last alt) w" and sp: "isTrimSpace w" and s: "s \<noteq> []"
  shows "altMatchesAt eq prev (s @ [w]) alt = altMatchesAt eq prev s alt"
proof (cases "matchLiteral eq alt s")
  case None
  then show ?thesis
    by (simp add: altMatchesAt_def matchLiteral_snoc [where eq = eq and alt = alt and w = w, OF ne nl])
next
  case (Some r)
  from matchLiteral_length [OF Some] ne have len: "length alt - 1 < length s"
    by (cases alt) auto
  have hd: "headOpt (s @ [w]) = headOpt s"
    using s by (cases s) (simp_all add: headOpt_def)
  have "isWord (headOpt (r @ [w])) = isWord (headOpt r)"
    using sp by (cases r) (simp_all add: headOpt_def isWord_def trimSpace_not_word)
  then show ?thesis
    using Some ne len hd
    by (simp add: altMatchesAt_def wordBoundary_def nth_append
          matchLiteral_snoc [where eq = eq and alt = alt and w = w, OF ne nl])
qed

lemma scanFrom_snoc:
  assumes solid: "\<forall>alt\<in>set alts. alt \<noteq> [] \<and> \<not> eq (hd alt) w \<and> \<not> eq (last alt) w"
    and sp: "isTrimSpace w"
  shows "scanFrom eq alts prev (s @ [w]) = scanFrom eq alts prev s"
proof (induction s arbitrary: prev)
  case Nil
  have "\<not> list_ex (altMatchesAt eq p []) alts" for p
    using solid by (simp add: list_ex_iff altMatchesAt_nil)
  moreover have "\<not> list_ex (altMatchesAt eq p [w]) alts" for p
    using solid by (simp add: list_ex_iff altMatchesAt_leading_space)
  ultimately show ?case by simp
next
  case (Cons c cs)
  have "altMatchesAt eq prev ((c # cs) @ [w]) alt = altMatchesAt eq prev (c # cs) alt"
    if "alt \<in> set alts" for alt
    using that solid sp by (intro altMatchesAt_snoc) auto
  then have "list_ex (altMatchesAt eq prev ((c # cs) @ [w])) alts
             = list_ex (altMatchesAt eq prev (c # cs)) alts"
    by (simp add: list_ex_iff)
  with Cons show ?case by simp
qed

lemma scanFrom_dropWhile_end:
  assumes "\<forall>alt\<in>set alts. alt \<noteq> [] \<and>
             (\<forall>w. isTrimSpace w \<longrightarrow> \<not> eq (hd alt) w \<and> \<not> eq (last alt) w)"
  shows "scanFrom eq alts prev (rev (dropWhile isTrimSpace (rev s))) = scanFrom eq alts prev s"
proof (induction s rule: rev_induct)
  case Nil
  show ?case by simp
next
  case (snoc w s)
  show ?case
  proof (cases "isTrimSpace w")
    case True
    with assms have "scanFrom eq alts prev (s @ [w]) = scanFrom eq alts prev s"
      by (intro scanFrom_snoc) auto
    with True snoc show ?thesis by simp
  next
    case False
    then show ?thesis by simp
  qed
qed

lemma canonicalize_space:
  assumes "isTrimSpace c" and "p < 128" and "\<not> isTrimSpace p"
  shows "canonicalize uc p \<noteq> canonicalize uc c"
proof (cases "c < 128")
  case True
  with assms(1) have "canonicalize uc c = c"
    by (auto simp: canonicalize_def isTrimSpace_def)
  moreover have "\<not> isTrimSpace (canonicalize uc p)"
    using assms(2,3) by (auto simp: canonicalize_def isTrimSpace_def Let_def)
  ultimately show ?thesis using assms(1) by metis
next
  case False
  then have "128 \<le> canonicalize uc c" by (simp add: canonicalize_def Let_def)
  moreover have "canonicalize uc p < 128" using assms(2) by (auto simp: canonicalize_def Let_def)
  ultimately show ?thesis by simp
qed

lemma regexTest_trim:
  assumes "list_all (\<lambda>alt. alt \<noteq> [] \<and> hd alt < 128 \<and> \<not> isTrimSpace (hd alt) \<and>
                           last alt < 128 \<and> \<not> isTrimSpace (last alt)) (map js alts)"
  shows "regexTest uc True alts (trim s) = regexTest uc True alts s"
proof -
  have solid: "\<forall>alt\<in>set (map js alts). alt \<noteq> [] \<and>
      (\<forall>w. isTrimSpace w \<longrightarrow> \<not> charMatches uc True (hd alt) w \<and> \<not> charMatches uc True (last alt) w)"
    using assms by (simp add: list_all_iff charMatches_def canonicalize_space)
  then have "\<forall>alt\<in>set (map js alts). alt \<noteq> [] \<and>
      (\<forall>w. isTrimSpace w \<longrightarrow> \<not> charMatches uc True (hd alt) w)"
    by blast
  from scanFrom_dropWhile [OF this] scanFrom_dropWhile_end [OF solid]
  show ?thesis by (simp add: regexTest_def regexTestUnits_def trim_def)
qed

lemma yesPatterns_trim:
  "regexTest uc True yesPatterns (trim s) = regexTest uc True yesPatterns s"
  by (rule regexTest_trim) (simp add: yesPatterns_def js_def isTrimSpace_def)

lemma noPatterns_trim:
  "regexTest uc True noPatterns (trim s) = regexTest uc True noPatterns s"
  by (rule regexTest_trim) (simp add: noPatterns_def js_def isTrimSpace_def)

subsection \<open>Concrete matches\<close>

lemma not_interested_matches_yes:
  "regexTest (\<lambda>c. c) True yesPatterns (js ''not interested'')"
  by code_simp

lemma not_interested_matches_no:
  "regexTest (\<lambda>c. c) True noPatterns (js ''not interested'')"
  by code_simp

lemma hmm_matches_no_yes: "\<not> regexTest (\<lambda>c. c) True yesPatterns (js ''hmm?'')"
  by code_simp

lemma hmm_matches_no_no: "\<not> regexTest (\<lambda>c. c) True noPatterns (js ''hmm?'')"
  by code_simp

lemma trim_not_interested: "trim (js ''not interested'') = js ''not interested''"
  by (simp add: trim_def js_def isTrimSpace_def)

lemma trim_hmm: "trim (js ''hmm?'') = js ''hmm?''"
  by (simp add: trim_def js_def isTrimSpace_def)

subsection \<open>Replies to a yes/no question\<close>

text \<open>
  What \<open>analyzeSentiment\<close> computes for a yes/no question when the classifier model is
  loaded and answers: the yes pattern is tested first, then the no pattern, and only a
  text that matches neither is decided by the model, negative exactly for the negative
  label with a score strictly above 0.7.
\<close>

lemma analyzeSentiment_yes_no:
  assumes "sentimentAnalyzer E = Some model" and "model (trim text) = Some out"
  shows "analyzeSentiment E text ''yes_no_question'' =
           (if regexTest (toUpperCase1 E) True yesPatterns text then Positive
            else if regexTest (toUpperCase1 E) True noPatterns text then Negative
            else if label out = ''LABEL_0'' \<and> 0.7 < score out then Negative
            else Positive)"
  using assms
  by (simp add: analyzeSentiment_def interpretYesNoSentiment_def Let_def
        yesPatterns_trim noPatterns_trim)

lemma not_interested_positive:
  "analyzeSentiment (referenceEnv ''LABEL_0'' 0.99) (js ''not interested'') ''yes_no_question''
     = Positive"
  by (simp add: referenceEnv_def analyzeSentiment_def interpretYesNoSentiment_def
        trim_not_interested not_interested_matches_yes not_interested_matches_no)

section \<open>Properties of the conflict detector\<close>

lemma momentDiffMinutes_abs:
  "\<bar>momentDiffMinutes a b\<bar> = \<bar>a - b\<bar> div msPerMinute"
  unfolding momentDiffMinutes_def msPerMinute_def by (cases "a - b < 0") simp_all

lemma int_div_less_iff:
  fixes x c k :: int
  assumes "0 < c"
  shows "x div c < k \<longleftrightarrow> x < k * c"
proof -
  have "(x + (- k) * c) div c = x div c + (- k)"
    using assms by (subst div_mult_self1) simp_all
  then have "(x - k * c) div c = x div c - k" by simp
  moreover have "(x - k * c) div c < 0 \<longleftrightarrow> x - k * c < 0"
    using assms by (rule pos_imp_zdiv_neg_iff)
  ultimately show ?thesis by simp
qed

lemma window_div: "x div msPerMinute < 15 \<longleftrightarrow> x < 15 * msPerMinute"
  by (rule int_div_less_iff) (simp add: msPerMinute_def)

lemma excludes_iff:
  "excluded \<noteq> Some [] \<Longrightarrow> excludes excluded phoneNumber \<longleftrightarrow> excluded = Some phoneNumber"
  by (auto simp: excludes_def split: option.splits)

lemma cancelledOrCompleted_iff:
  "cancelledOrCompleted st \<longleftrightarrow> st = Some ''cancelled'' \<or> st = Some ''completed''"
  by (auto simp: cancelledOrCompleted_def split: option.splits)

lemma scanSchedules_step:
  assumes "excluded \<noteq> Some []"
  shows "scanSchedules E candidate excluded ((phoneNumber, schedule) # rest) =
           (if withinWindow E candidate excluded (phoneNumber, schedule)
            then reportOf E candidate (phoneNumber, schedule)
            else scanSchedules E candidate excluded rest)"
proof (cases "momentParse E (templateValue (date schedule) @ '' '' @ templateValue (time schedule))")
  case None
  then show ?thesis by (simp add: withinWindow_def)
next
  case (Some existing)
  then show ?thesis
    using assms
    by (simp add: withinWindow_def reportOf_def conflictDetails_def excludes_iff
          cancelledOrCompleted_iff momentDiffMinutes_abs window_div)
qed

lemma scanSchedules_find:
  assumes "excluded \<noteq> Some []"
  shows "scanSchedules E candidate excluded allSchedules =
           (case find (withinWindow E candidate excluded) allSchedules of
              None \<Rightarrow> noConflict
            | Some entry \<Rightarrow> reportOf E candidate entry)"
proof (induction allSchedules)
  case Nil
  show ?case by simp
next
  case (Cons entry rest)
  obtain phoneNumber schedule where entry: "entry = (phoneNumber, schedule)"
    by (cases entry)
  show ?case
    unfolding entry using Cons
    by (simp only: scanSchedules_step [OF assms] find.simps split: if_splits) simp
qed

lemma find_hasConflict:
  "hasConflict (case find P xs of None \<Rightarrow> noConflict | Some entry \<Rightarrow> reportOf E candidate entry)
     \<longleftrightarrow> (\<exists>entry\<in>set xs. P entry)"
  by (induction xs) (auto simp: noConflict_def reportOf_def)

lemma checkTimeConflict_parsed:
  assumes "momentParse E (newDate @ '' '' @ newTime) = Some candidate"
  shows "checkTimeConflict E (Parsed allSchedules) newDate newTime excluded
           = scanSchedules E candidate excluded allSchedules"
  using assms by (simp add: checkTimeConflict_def checkTimeConflictBody_def readJson_def)

text \<open>
  Claim C3. For a booking table that can be read and a candidate date and time that
  parse, \<open>checkTimeConflict\<close> reports a conflict exactly when some booking of another
  identifier than the excluded one, with a status that is neither cancelled nor
  completed, lies less than 15 minutes from the candidate: the absolute difference
  decides, so both sides of the candidate count alike, and a difference of 15 minutes or
  more is no conflict. The booking reported is the first such one in the order in which
  the table is iterated. (An identifier is a non-empty string.)
\<close>

theorem conflict_detection:
  assumes "momentParse E (newDate @ '' '' @ newTime) = Some candidate"
    and "excluded \<noteq> Some []"
  shows "(hasConflict (checkTimeConflict E (Parsed allSchedules) newDate newTime excluded) \<longleftrightarrow>
            (\<exists>entry\<in>set allSchedules.
               excluded \<noteq> Some (fst entry) \<and>
               status (snd entry) \<noteq> Some ''cancelled'' \<and>
               status (snd entry) \<noteq> Some ''completed'' \<and>
               (\<exists>existing.
                  momentParse E (templateValue (date (snd entry)) @ '' '' @ templateValue (time (snd entry)))
                    = Some existing \<and>
                  \<bar>candidate - existing\<bar> < 15 * msPerMinute))) \<and>
         checkTimeConflict E (Parsed allSchedules) newDate newTime excluded =
           (case find (withinWindow E candidate excluded) allSchedules of
              None \<Rightarrow> noConflict
            | Some entry \<Rightarrow> reportOf E candidate entry)"
proof -
  have eq: "checkTimeConflict E (Parsed allSchedules) newDate newTime excluded =
      (case find (withinWindow E candidate excluded) allSchedules of
         None \<Rightarrow> noConflict
       | Some entry \<Rightarrow> reportOf E candidate entry)"
    using assms by (simp add: checkTimeConflict_parsed scanSchedules_find)
  have "(\<exists>entry\<in>set allSchedules. withinWindow E candidate excluded entry) \<longleftrightarrow>
      (\<exists>entry\<in>set allSchedules.
         excluded \<noteq> Some (fst entry) \<and>
         status (snd entry) \<noteq> Some ''cancelled'' \<and>
         status (snd entry) \<noteq> Some ''completed'' \<and>
         (\<exists>existing.
            momentParse E (templateValue (date (snd entry)) @ '' '' @ templateValue (time (snd entry)))
              = Some existing \<and>
            \<bar>candidate - existing\<bar> < 15 * msPerMinute))"
    by (auto simp: withinWindow_def split: option.splits)
  with eq show ?thesis by (simp add: find_hasConflict)
qed

lemmas parse_eval =
  strictMomentParse_def civilToMoment_def daysFromCivil_def daysOfEra_def daysInMonth_def
  isDigit_def decimalValue_def msPerDay_def msPerMinute_def

lemma referenceEnv_momentParse [simp]: "momentParse (referenceEnv l sc) = strictMomentParse"
  by (simp add: referenceEnv_def)

lemma parse_1030: "strictMomentParse ''02/11/2026 10:30'' = Some 1793615400000"
  by (simp add: parse_eval)

lemma parse_1020: "strictMomentParse ''02/11/2026 10:20'' = Some 1793614800000"
  by (simp add: parse_eval)

lemma parse_1044: "strictMomentParse ''02/11/2026 10:44'' = Some 1793616240000"
  by (simp add: parse_eval)

lemma parse_1016: "strictMomentParse ''02/11/2026 10:16'' = Some 1793614560000"
  by (simp add: parse_eval)

lemma parse_1045: "strictMomentParse ''02/11/2026 10:45'' = Some 1793616300000"
  by (simp add: parse_eval)

lemma parse_1015: "strictMomentParse ''02/11/2026 10:15'' = Some 1793614500000"
  by (simp add: parse_eval)

lemma parse_invalid: "strictMomentParse ''31/02/2026 10:30'' = None"
  by (simp add: parse_eval)

lemmas demo_parses =
  parse_1030 parse_1020 parse_1044 parse_1016 parse_1045 parse_1015 parse_invalid

theorem conflict_detection_witness:
  "momentParse (referenceEnv [] 0) (''02/11/2026'' @ '' '' @ ''10:30'') = Some 1793615400000 \<and>
   hasConflict (checkTimeConflict (referenceEnv [] 0) (Parsed demoSchedules)
                  ''02/11/2026'' ''10:30'' (Some ''912222222222'')) \<and>
   conflictingPhone (checkTimeConflict (referenceEnv [] 0) (Parsed demoSchedules)
                  ''02/11/2026'' ''10:30'' (Some ''912222222222'')) = Some ''913333333333'' \<and>
   timeDifference (checkTimeConflict (referenceEnv [] 0) (Parsed demoSchedules)
                  ''02/11/2026'' ''10:30'' (Some ''912222222222'')) = Some 14 \<and>
   \<not> hasConflict (checkTimeConflict (referenceEnv [] 0) (Parsed demoSchedulesApart)
                  ''02/11/2026'' ''10:30'' (Some ''912222222222''))"
proof -
  have p: "momentParse (referenceEnv [] 0) (''02/11/2026'' @ '' '' @ ''10:30'') = Some 1793615400000"
    by (simp add: parse_1030)
  have e: "Some ''912222222222'' \<noteq> Some []" by simp
  note near = conflict_detection [OF p e, of demoSchedules]
  note apart = conflict_detection [OF p e, of demoSchedulesApart]
  have "find (withinWindow (referenceEnv [] 0) 1793615400000 (Some ''912222222222'')) demoSchedules
          = Some (''913333333333'', bookingAt ''02/11/2026'' ''10:44'' ''scheduled'')"
    by (simp add: demoSchedules_def withinWindow_def bookingAt_def templateValue_def demo_parses
          msPerMinute_def)
  moreover have "find (withinWindow (referenceEnv [] 0) 1793615400000 (Some ''912222222222''))
          demoSchedulesApart = None"
    by (simp add: demoSchedulesApart_def withinWindow_def bookingAt_def templateValue_def demo_parses
          msPerMinute_def)
  ultimately show ?thesis
    using near apart p
    by (simp add: reportOf_def noConflict_def bookingAt_def templateValue_def demo_parses
          msPerMinute_def)
qed

text \<open>
  Claim C10. When the candidate date and time do not parse to a valid instant, and when
  the scan fails inside (the booking table cannot be read, or its text cannot be parsed,
  or any other exception of the body), \<open>checkTimeConflict\<close> answers that there is no
  conflict: it never raises, and the booking goes ahead.
\<close>

theorem conflict_check_fails_open:
  assumes "momentParse E (newDate @ '' '' @ newTime) = None \<or> f = Unreadable \<or> f = Garbled \<or>
           (\<exists>e. checkTimeConflictBody E f newDate newTime excluded = Inl e)"
  shows "checkTimeConflict E f newDate newTime excluded = noConflict \<and>
         \<not> hasConflict (checkTimeConflict E f newDate newTime excluded)"
proof -
  have "checkTimeConflict E f newDate newTime excluded = noConflict"
    using assms
    by (cases f) (auto simp: checkTimeConflict_def checkTimeConflictBody_def readJson_def)
  then show ?thesis by (simp add: noConflict_def)
qed

theorem conflict_check_fails_open_witness:
  "momentParse (referenceEnv [] 0) (''31/02/2026'' @ '' '' @ ''10:30'') = None \<and>
   checkTimeConflict (referenceEnv [] 0) (Parsed demoSchedules) ''31/02/2026'' ''10:30'' None
     = noConflict \<and>
   checkTimeConflictBody (referenceEnv [] 0) Garbled ''02/11/2026'' ''10:30'' None = Inl SyntaxError \<and>
   checkTimeConflict (referenceEnv [] 0) Garbled ''02/11/2026'' ''10:30'' None = noConflict \<and>
   checkTimeConflict (referenceEnv [] 0) Unreadable ''02/11/2026'' ''10:30'' None = noConflict"
  using conflict_check_fails_open [of "referenceEnv [] 0" "''31/02/2026''" "''10:30''"
          "Parsed demoSchedules" None]
        conflict_check_fails_open [of "referenceEnv [] 0" "''02/11/2026''" "''10:30''" Garbled None]
        conflict_check_fails_open [of "referenceEnv [] 0" "''02/11/2026''" "''10:30''" Unreadable None]
  by (simp add: parse_invalid checkTimeConflictBody_def readJson_def)

section \<open>Properties of the session store\<close>

subsection \<open>What a save leaves alone\<close>

lemma saveSessionsToFile_frame:
  assumes "saveSessionsToFile w ids now = Inr w'"
  shows "userSessions w' = userSessions w \<and> saveQueue w' = saveQueue w \<and>
         saveTimeout w' = saveTimeout w \<and> lastSaveTime w' = lastSaveTime w \<and>
         callScheduleFile w' = callScheduleFile w \<and> outbox w' = outbox w"
  using assms by (auto simp: saveSessionsToFile_def writeJson_def split: sum.splits if_splits)

lemma executeSave_frame:
  "userSessions (executeSave w now) = userSessions w \<and>
   saveTimeout (executeSave w now) = saveTimeout w \<and>
   callScheduleFile (executeSave w now) = callScheduleFile w \<and>
   outbox (executeSave w now) = outbox w"
  by (auto simp: executeSave_def dest: saveSessionsToFile_frame split: sum.splits)

lemma debounceSave_frame:
  "userSessions (debounceSave w now) = userSessions w \<and>
   callScheduleFile (debounceSave w now) = callScheduleFile w \<and>
   outbox (debounceSave w now) = outbox w"
  by (simp add: debounceSave_def executeSave_frame)

lemma markForSave_frame:
  "userSessions (markForSave w whatsappId why now) = userSessions w \<and>
   callScheduleFile (markForSave w whatsappId why now) = callScheduleFile w \<and>
   outbox (markForSave w whatsappId why now) = outbox w"
  by (simp add: markForSave_def debounceSave_frame)

lemma saveSessionsToFile_readable:
  assumes "sessionsFile w = Missing \<or> (\<exists>stored. sessionsFile w = Parsed stored)"
  shows "\<exists>w'. saveSessionsToFile w ids now = Inr w'"
  using assms by (auto simp: saveSessionsToFile_def readJson_def writeJson_def)

subsection \<open>The debounce policy\<close>

text \<open>
  Claim C5, as the code has it. When some pending entry has the reason state_change or
  completion, scheduling a save runs the save at once and arms no timer; when the table
  of sessions can be read, the queue is empty afterwards. Otherwise a timer is armed: with
  the full delay of 2000 ms while at most 5 identifiers are pending, with 1000 ms for more
  than 5 and fewer than 10 (the batch cap), and with 500 ms from the cap on.
\<close>

theorem debounce_policy:
  "(isCriticalEvent (saveQueue w) \<longleftrightarrow>
      (\<exists>entry\<in>set (saveQueue w).
         reason (snd entry) = ''state_change'' \<or> reason (snd entry) = ''completion'')) \<and>
   (isCriticalEvent (saveQueue w) \<longrightarrow>
      debounceSave w now = executeSave (w\<lparr>saveTimeout := None\<rparr>) now \<and>
      saveTimeout (debounceSave w now) = None \<and>
      (sessionsFile w = Missing \<or> (\<exists>stored. sessionsFile w = Parsed stored) \<longrightarrow>
         saveQueue (debounceSave w now) = [] \<and> lastSaveTime (debounceSave w now) = Some now)) \<and>
   (\<not> isCriticalEvent (saveQueue w) \<longrightarrow>
      debounceSave w now =
        w\<lparr>saveTimeout :=
             Some (if length (saveQueue w) \<le> 5 then 2000
                   else if length (saveQueue w) < 10 then 1000
                   else 500)\<rparr>)"
proof -
  have flush: "saveQueue (executeSave (w\<lparr>saveTimeout := None\<rparr>) now) = [] \<and>
      lastSaveTime (executeSave (w\<lparr>saveTimeout := None\<rparr>) now) = Some now"
    if crit: "isCriticalEvent (saveQueue w)"
      and readable: "sessionsFile w = Missing \<or> (\<exists>stored. sessionsFile w = Parsed stored)"
  proof -
    from crit have ne: "saveQueue w \<noteq> []" by (auto simp: isCriticalEvent_def)
    from readable obtain w' where w':
      "saveSessionsToFile (w\<lparr>saveTimeout := None\<rparr>) (map fst (saveQueue w)) now = Inr w'"
      using saveSessionsToFile_readable [of "w\<lparr>saveTimeout := None\<rparr>"] by auto
    with ne show ?thesis by (simp add: executeSave_def)
  qed
  show ?thesis
    using flush
    by (auto simp: debounceSave_def isCriticalEvent_def list_ex_iff executeSave_frame
          calculateDynamicDelay_def maxBatchSize_def debounceDelay_def)
qed

lemma fivePending_not_critical: "\<not> isCriticalEvent fivePending"
  by (simp add: isCriticalEvent_def fivePending_def pendingMessage_def)

lemma sixPending_not_critical: "\<not> isCriticalEvent sixPending"
  by (simp add: isCriticalEvent_def sixPending_def fivePending_def pendingMessage_def)

lemma tenPending_not_critical: "\<not> isCriticalEvent tenPending"
  by (simp add: isCriticalEvent_def tenPending_def sixPending_def fivePending_def pendingMessage_def)

theorem debounce_policy_witness:
  "isCriticalEvent [(''a@c.us'', \<lparr>timestamp = 0, reason = ''state_change''\<rparr>)] \<and>
   saveTimeout (debounceSave
       (emptyWorld\<lparr>saveQueue := [(''a@c.us'', \<lparr>timestamp = 0, reason = ''state_change''\<rparr>)]\<rparr>) 1)
     = None \<and>
   saveQueue (debounceSave
       (emptyWorld\<lparr>saveQueue := [(''a@c.us'', \<lparr>timestamp = 0, reason = ''state_change''\<rparr>)]\<rparr>) 1)
     = [] \<and>
   length sixPending = 6 \<and>
   saveTimeout (debounceSave (emptyWorld\<lparr>saveQueue := sixPending\<rparr>) 1) = Some 1000 \<and>
   length tenPending = 10 \<and>
   saveTimeout (debounceSave (emptyWorld\<lparr>saveQueue := tenPending\<rparr>) 1) = Some 500"
proof -
  let ?q = "[(''a@c.us'', \<lparr>timestamp = 0, reason = ''state_change''\<rparr>)]"
  let ?w = "emptyWorld\<lparr>saveQueue := ?q\<rparr>"
  have crit: "isCriticalEvent (saveQueue ?w)"
    by (simp add: isCriticalEvent_def)
  have readable: "sessionsFile ?w = Missing \<or> (\<exists>stored. sessionsFile ?w = Parsed stored)"
    by (simp add: emptyWorld_def)
  from debounce_policy [of ?w 1] crit readable
  have flushed: "saveTimeout (debounceSave ?w 1) = None \<and> saveQueue (debounceSave ?w 1) = []"
    by blast
  have six: "length sixPending = 6" and ten: "length tenPending = 10"
    by (simp_all add: tenPending_def sixPending_def fivePending_def)
  from debounce_policy [of "emptyWorld\<lparr>saveQueue := sixPending\<rparr>" 1] sixPending_not_critical
  have "debounceSave (emptyWorld\<lparr>saveQueue := sixPending\<rparr>) 1
          = emptyWorld\<lparr>saveQueue := sixPending, saveTimeout := Some 1000\<rparr>"
    by (simp add: six)
  moreover
  from debounce_policy [of "emptyWorld\<lparr>saveQueue := tenPending\<rparr>" 1] tenPending_not_critical
  have "debounceSave (emptyWorld\<lparr>saveQueue := tenPending\<rparr>) 1
          = emptyWorld\<lparr>saveQueue := tenPending, saveTimeout := Some 500\<rparr>"
    by (simp add: ten)
  ultimately show ?thesis
    using flushed crit six ten by simp
qed

text \<open>The claim as it was stated gives the shorter delay from 5 pending identifiers on.
  With exactly 5 pending, none of them critical, the timer is armed with the full delay.\<close>

theorem five_pending_full_delay:
  "length fivePending = 5 \<and> \<not> isCriticalEvent fivePending \<and>
   saveTimeout (debounceSave (emptyWorld\<lparr>saveQueue := fivePending\<rparr>) 1) = Some 2000"
  using fivePending_not_critical
  by (simp add: debounceSave_def calculateDynamicDelay_def maxBatchSize_def debounceDelay_def)
     (simp add: fivePending_def)

section \<open>Properties of the conversation driver\<close>

lemma map_of_mapSet_same: "map_of (mapSet k v m) k = Some v"
  by (induction m) auto

lemma map_of_mapSet_other: "k' \<noteq> k \<Longrightarrow> map_of (mapSet k v m) k' = map_of m k'"
  by (induction m) auto

lemma map_of_replace:
  "k \<in> set (map fst obj) \<Longrightarrow> map_of (map (\<lambda>kv. if fst kv = k then (k, v) else kv) obj) k = Some v"
  by (induction obj) auto

lemma map_of_objSet_same: "map_of (objSet k v obj) k = Some v"
proof (cases "k \<in> set (map fst obj)")
  case True
  then show ?thesis by (simp add: objSet_def map_of_replace)
next
  case False
  have "map_of (takeWhile P obj) k = None" for P
  proof -
    have "set (takeWhile P obj) \<subseteq> set obj" by (auto dest: set_takeWhileD)
    with False show ?thesis by (force simp: map_of_eq_None_iff)
  qed
  moreover have "map_of obj k = None"
    using False by (simp add: map_of_eq_None_iff)
  ultimately show ?thesis
    using False by (simp add: objSet_def map_add_def)
qed

lemma messageReply_frame:
  "userSessions (messageReply w message r) = userSessions w \<and>
   callScheduleFile (messageReply w message r) = callScheduleFile w"
  by (simp add: messageReply_def)

lemma createOrUpdateSession_existing:
  assumes "map_of (userSessions w) whatsappId = Some s"
  shows "map_of (userSessions (createOrUpdateSession w whatsappId u now)) whatsappId
           = Some ((applyUpdates s u)\<lparr>lastActivity := now\<rparr>) \<and>
         callScheduleFile (createOrUpdateSession w whatsappId u now) = callScheduleFile w"
  using assms by (simp add: createOrUpdateSession_def markForSave_frame map_of_mapSet_same)

lemma state_names_distinct:
  "GREETING \<noteq> CLARIFYING_RESPONSE" "WAITING_INITIAL_RESPONSE \<noteq> CLARIFYING_RESPONSE"
  "CONFIRMING_SCHEDULE \<noteq> GREETING" "CONFIRMING_SCHEDULE \<noteq> WAITING_INITIAL_RESPONSE"
  "CONFIRMING_SCHEDULE \<noteq> CLARIFYING_RESPONSE" "CONFIRMING_SCHEDULE \<noteq> ASKING_REASON"
  "CONFIRMING_SCHEDULE \<noteq> ASKING_CALL_TIME" "CONFIRMING_SCHEDULE \<noteq> ASKING_DATE"
  "CONFIRMING_SCHEDULE \<noteq> ASKING_TIME"
  by (simp_all add: GREETING_def CLARIFYING_RESPONSE_def WAITING_INITIAL_RESPONSE_def
        CONFIRMING_SCHEDULE_def ASKING_REASON_def ASKING_CALL_TIME_def ASKING_DATE_def
        ASKING_TIME_def)

lemma handleInitialResponse_session:
  assumes "map_of (userSessions w) (msg_from message) = Some session"
  shows "map_of (userSessions (handleInitialResponse E now w message session body)) (msg_from message)
           = Some ((applyUpdates session
                (case analyzeSentiment E body ''yes_no_question'' of
                   Positive \<Rightarrow> noUpdates\<lparr>u_state := Some ASKING_CALL_TIME,
                                          u_currentQuestion := Some ''call_time''\<rparr>
                 | Negative \<Rightarrow> noUpdates\<lparr>u_state := Some ASKING_REASON,
                                          u_currentQuestion := Some ''reason''\<rparr>
                 | Neutral \<Rightarrow> noUpdates\<lparr>u_state := Some CLARIFYING_RESPONSE,
                                         u_currentQuestion := Some ''clarification'',
                                         u_clarificationAttempts := Some (nextAttempt session)\<rparr>))
              \<lparr>lastActivity := now\<rparr>)"
  using assms
  by (cases "analyzeSentiment E body ''yes_no_question''")
     (simp_all add: handleInitialResponse_def createOrUpdateSession_existing messageReply_frame)

lemma handleClarificationResponse_session:
  assumes "map_of (userSessions w) (msg_from message) = Some session"
  shows "map_of (userSessions (handleClarificationResponse E now w message session body))
             (msg_from message)
           = Some ((applyUpdates session
                (case analyzeSentiment E body ''yes_no_question'' of
                   Positive \<Rightarrow> noUpdates\<lparr>u_state := Some ASKING_CALL_TIME,
                                          u_currentQuestion := Some ''call_time'',
                                          u_clarificationAttempts := Some 0\<rparr>
                 | Negative \<Rightarrow> noUpdates\<lparr>u_state := Some ASKING_REASON,
                                          u_currentQuestion := Some ''reason'',
                                          u_clarificationAttempts := Some 0\<rparr>
                 | Neutral \<Rightarrow> noUpdates\<lparr>u_clarificationAttempts := Some (nextAttempt session)\<rparr>))
              \<lparr>lastActivity := now\<rparr>)"
  using assms
  by (cases "analyzeSentiment E body ''yes_no_question''")
     (simp_all add: handleClarificationResponse_def createOrUpdateSession_existing messageReply_frame)

text \<open>
  Claim C6. For a session in state GREETING or WAITING_INITIAL_RESPONSE, a reply classified
  positive moves the session to ASKING_CALL_TIME, one classified negative moves it to
  ASKING_REASON, and one classified neutral moves it to CLARIFYING_RESPONSE with the
  clarification counter set to its old value (0 when there was none) plus one. From
  CLARIFYING_RESPONSE, positive and negative replies move on in the same way, and a
  neutral reply leaves the state CLARIFYING_RESPONSE and adds one to the counter,
  whatever the counter was: no number of attempts ends the clarification.
\<close>

theorem initial_and_clarification_transitions:
  assumes "map_of (userSessions w) (msg_from message) = Some session"
  shows "(state session = GREETING \<or> state session = WAITING_INITIAL_RESPONSE \<longrightarrow>
            (\<exists>s'. map_of (userSessions (dispatchState E asking now w message session body))
                     (msg_from message) = Some s' \<and>
                   (analyzeSentiment E body ''yes_no_question'' = Positive \<longrightarrow>
                      state s' = ASKING_CALL_TIME) \<and>
                   (analyzeSentiment E body ''yes_no_question'' = Negative \<longrightarrow>
                      state s' = ASKING_REASON) \<and>
                   (analyzeSentiment E body ''yes_no_question'' = Neutral \<longrightarrow>
                      state s' = CLARIFYING_RESPONSE \<and>
                      clarificationAttempts s' =
                        Some ((case clarificationAttempts session of None \<Rightarrow> 0 | Some n \<Rightarrow> n) + 1)))) \<and>
         (state session = CLARIFYING_RESPONSE \<longrightarrow>
            (\<exists>s'. map_of (userSessions (dispatchState E asking now w message session body))
                     (msg_from message) = Some s' \<and>
                   (analyzeSentiment E body ''yes_no_question'' = Positive \<longrightarrow>
                      state s' = ASKING_CALL_TIME) \<and>
                   (analyzeSentiment E body ''yes_no_question'' = Negative \<longrightarrow>
                      state s' = ASKING_REASON) \<and>
                   (analyzeSentiment E body ''yes_no_question'' = Neutral \<longrightarrow>
                      state s' = CLARIFYING_RESPONSE \<and>
                      clarificationAttempts s' =
                        Some ((case clarificationAttempts session of None \<Rightarrow> 0 | Some n \<Rightarrow> n) + 1))))"
proof (intro conjI impI)
  assume "state session = GREETING \<or> state session = WAITING_INITIAL_RESPONSE"
  then have "dispatchState E asking now w message session body
               = handleInitialResponse E now w message session body"
    by (auto simp: dispatchState_def)
  then show "\<exists>s'. map_of (userSessions (dispatchState E asking now w message session body))
                     (msg_from message) = Some s' \<and>
                   (analyzeSentiment E body ''yes_no_question'' = Positive \<longrightarrow>
                      state s' = ASKING_CALL_TIME) \<and>
                   (analyzeSentiment E body ''yes_no_question'' = Negative \<longrightarrow>
                      state s' = ASKING_REASON) \<and>
                   (analyzeSentiment E body ''yes_no_question'' = Neutral \<longrightarrow>
                      state s' = CLARIFYING_RESPONSE \<and>
                      clarificationAttempts s' =
                        Some ((case clarificationAttempts session of None \<Rightarrow> 0 | Some n \<Rightarrow> n) + 1))"
    using handleInitialResponse_session [OF assms, of E now body]
    by (simp add: applyUpdates_def assigned_def assignedOpt_def noUpdates_def nextAttempt_def)
next
  assume st: "state session = CLARIFYING_RESPONSE"
  then have "dispatchState E asking now w message session body
               = handleClarificationResponse E now w message session body"
    by (simp add: dispatchState_def state_names_distinct [symmetric])
  then show "\<exists>s'. map_of (userSessions (dispatchState E asking now w message session body))
                     (msg_from message) = Some s' \<and>
                   (analyzeSentiment E body ''yes_no_question'' = Positive \<longrightarrow>
                      state s' = ASKING_CALL_TIME) \<and>
                   (analyzeSentiment E body ''yes_no_question'' = Negative \<longrightarrow>
                      state s' = ASKING_REASON) \<and>
                   (analyzeSentiment E body ''yes_no_question'' = Neutral \<longrightarrow>
                      state s' = CLARIFYING_RESPONSE \<and>
                      clarificationAttempts s' =
                        Some ((case clarificationAttempts session of None \<Rightarrow> 0 | Some n \<Rightarrow> n) + 1))"
    using handleClarificationResponse_session [OF assms, of E now body] st
    by (simp add: applyUpdates_def assigned_def assignedOpt_def noUpdates_def nextAttempt_def)
qed

lemma fallbackEnv_sentiment:
  "analyzeSentiment (fallbackEnv answer) text context = answer"
  by (simp add: analyzeSentiment_def fallbackEnv_def)

lemma worldWith_session:
  "map_of (userSessions (worldWith s bookings)) (msg_from (messageOf text)) = Some s"
  by (simp add: worldWith_def messageOf_def)

theorem initial_and_clarification_transitions_witness:
  "map_of (userSessions (worldWith (sessionIn GREETING) [])) (msg_from (messageOf ''maybe''))
     = Some (sessionIn GREETING) \<and>
   state (sessionIn GREETING) = GREETING \<and>
   analyzeSentiment (fallbackEnv Neutral) (js ''maybe'') ''yes_no_question'' = Neutral \<and>
   (\<exists>s'. map_of (userSessions
                   (dispatchState (fallbackEnv Neutral) noAsking 5 (worldWith (sessionIn GREETING) [])
                      (messageOf ''maybe'') (sessionIn GREETING) (js ''maybe'')))
            (msg_from (messageOf ''maybe'')) = Some s' \<and>
          state s' = CLARIFYING_RESPONSE \<and> clarificationAttempts s' = Some 1) \<and>
   state (clarifyingSession 41) = CLARIFYING_RESPONSE \<and>
   (\<exists>s'. map_of (userSessions
                   (dispatchState (fallbackEnv Neutral) noAsking 5 (worldWith (clarifyingSession 41) [])
                      (messageOf ''maybe'') (clarifyingSession 41) (js ''maybe'')))
            (msg_from (messageOf ''maybe'')) = Some s' \<and>
          state s' = CLARIFYING_RESPONSE \<and> clarificationAttempts s' = Some 42)"
proof -
  have g: "state (sessionIn GREETING) = GREETING"
    and ng: "clarificationAttempts (sessionIn GREETING) = None"
    by (simp_all add: sessionIn_def newSession_def)
  have c: "state (clarifyingSession 41) = CLARIFYING_RESPONSE"
    and nc: "clarificationAttempts (clarifyingSession 41) = Some 41"
    by (simp_all add: clarifyingSession_def sessionIn_def)
  note n = fallbackEnv_sentiment [of Neutral "js ''maybe''" "''yes_no_question''"]
  from initial_and_clarification_transitions
         [where w = "worldWith (sessionIn GREETING) []" and message = "messageOf ''maybe''"
            and session = "sessionIn GREETING" and E = "fallbackEnv Neutral"
            and asking = noAsking and now = 5 and body = "js ''maybe''",
          OF worldWith_session] g ng n
  have first: "\<exists>s'. map_of (userSessions
                   (dispatchState (fallbackEnv Neutral) noAsking 5 (worldWith (sessionIn GREETING) [])
                      (messageOf ''maybe'') (sessionIn GREETING) (js ''maybe'')))
            (msg_from (messageOf ''maybe'')) = Some s' \<and>
          state s' = CLARIFYING_RESPONSE \<and> clarificationAttempts s' = Some 1"
    by simp
  from initial_and_clarification_transitions
         [where w = "worldWith (clarifyingSession 41) []" and message = "messageOf ''maybe''"
            and session = "clarifyingSession 41" and E = "fallbackEnv Neutral"
            and asking = noAsking and now = 5 and body = "js ''maybe''",
          OF worldWith_session] c nc n
  have again: "\<exists>s'. map_of (userSessions
                   (dispatchState (fallbackEnv Neutral) noAsking 5 (worldWith (clarifyingSession 41) [])
                      (messageOf ''maybe'') (clarifyingSession 41) (js ''maybe'')))
            (msg_from (messageOf ''maybe'')) = Some s' \<and>
          state s' = CLARIFYING_RESPONSE \<and> clarificationAttempts s' = Some 42"
    by simp
  from first again g c n worldWith_session [of "sessionIn GREETING" "[]" "''maybe''"]
  show ?thesis by blast
qed

subsection \<open>The reply ``not interested''\<close>

text \<open>
  Claim C1 at the text ``not interested'', with the model loaded and answering the
  negative label with score 0.99. The text matches the no pattern, which lists
  ``not interested'', and it also matches the yes pattern, which lists ``interested''.
  \<open>interpretYesNoSentiment\<close> tests the yes pattern first, so the classification is
  positive, and a session waiting for the initial response moves to ASKING_CALL_TIME.
\<close>

theorem no_pattern_match_classified_positive:
  "regexTest (toUpperCase1 (referenceEnv ''LABEL_0'' 0.99)) True noPatterns (js ''not interested'') \<and>
   regexTest (toUpperCase1 (referenceEnv ''LABEL_0'' 0.99)) True yesPatterns (js ''not interested'') \<and>
   analyzeSentiment (referenceEnv ''LABEL_0'' 0.99) (js ''not interested'') ''yes_no_question''
     = Positive \<and>
   map_option state
     (map_of (userSessions
                (dispatchState (referenceEnv ''LABEL_0'' 0.99) noAsking 5
                   (worldWith (sessionIn WAITING_INITIAL_RESPONSE) [])
                   (messageOf ''not interested'')
                   (sessionIn WAITING_INITIAL_RESPONSE) (js ''not interested'')))
        (msg_from (messageOf ''not interested''))) = Some ASKING_CALL_TIME"
proof -
  let ?E = "referenceEnv ''LABEL_0'' 0.99"
  let ?s = "sessionIn WAITING_INITIAL_RESPONSE"
  have st: "state ?s = WAITING_INITIAL_RESPONSE"
    by (simp add: sessionIn_def)
  have d: "dispatchState ?E noAsking 5 (worldWith ?s []) (messageOf ''not interested'') ?s
             (js ''not interested'')
           = handleInitialResponse ?E 5 (worldWith ?s []) (messageOf ''not interested'') ?s
               (js ''not interested'')"
    using st by (simp add: dispatchState_def state_names_distinct)
  have pos: "analyzeSentiment ?E (js ''not interested'') ''yes_no_question'' = Positive"
    by (rule not_interested_positive)
  note moved = handleInitialResponse_session
         [where E = ?E and now = 5 and body = "js ''not interested''",
          OF worldWith_session [of ?s "[]" "''not interested''"], unfolded pos]
  from moved
  have "map_option state
          (map_of (userSessions
                     (handleInitialResponse ?E 5 (worldWith ?s []) (messageOf ''not interested'') ?s
                        (js ''not interested'')))
             (msg_from (messageOf ''not interested''))) = Some ASKING_CALL_TIME"
    by (simp add: applyUpdates_def assigned_def noUpdates_def)
  moreover have "regexTest (toUpperCase1 ?E) True noPatterns (js ''not interested'')"
    and "regexTest (toUpperCase1 ?E) True yesPatterns (js ''not interested'')"
    by (simp_all add: referenceEnv_def not_interested_matches_yes not_interested_matches_no)
  ultimately show ?thesis
    unfolding d using pos by blast
qed

subsection \<open>Confirming a schedule\<close>



















subsection \<open>Saving and loading sessions\<close>

lemma map_of_insert_other: "k' \<noteq> k \<Longrightarrow> map_of (xs @ (k, v) # ys) k' = map_of (xs @ ys) k'"
  by (induction xs) auto

lemma map_of_replace_other:
  "k' \<noteq> k \<Longrightarrow> map_of (map (\<lambda>kv. if fst kv = k then (k, v) else kv) obj) k' = map_of obj k'"
  by (induction obj) auto

lemma map_of_objSet_other:
  assumes "k' \<noteq> k"
  shows "map_of (objSet k v obj) k' = map_of obj k'"
proof -
  have "map_of (takeWhile P obj @ (k, v) # dropWhile P obj) k'
          = map_of (takeWhile P obj @ dropWhile P obj) k'" for P
    using assms by (rule map_of_insert_other)
  then have ins: "map_of (takeWhile P obj @ (k, v) # dropWhile P obj) k' = map_of obj k'" for P
    by simp
  have "map_of (obj @ (k, v) # []) k' = map_of (obj @ []) k'"
    using assms by (rule map_of_insert_other)
  then have app: "map_of (obj @ [(k, v)]) k' = map_of obj k'"
    by simp
  show ?thesis
    unfolding objSet_def
    using assms ins app by (simp add: map_of_replace_other del: map_of_append)
qed

lemma map_of_objDelete_other: "k' \<noteq> k \<Longrightarrow> map_of (objDelete k obj) k' = map_of obj k'"
  by (induction obj) (auto simp: objDelete_def)

lemma distinct_objSet:
  assumes "distinct (map fst obj)"
  shows "distinct (map fst (objSet k v obj))"
proof (cases "k \<in> set (map fst obj)")
  case True
  then have "objSet k v obj = map (\<lambda>kv. if fst kv = k then (k, v) else kv) obj"
    by (simp add: objSet_def)
  moreover have "map fst (map (\<lambda>kv. if fst kv = k then (k, v) else kv) obj) = map fst obj"
    by (induction obj) auto
  ultimately show ?thesis using assms by (simp only:)
next
  case False
  have split: "map fst obj = map fst (takeWhile P obj) @ map fst (dropWhile P obj)" for P
    by (simp flip: map_append)
  have "distinct (map fst (takeWhile P obj) @ k # map fst (dropWhile P obj))" for P
  proof -
    from assms split [of P]
    have "distinct (map fst (takeWhile P obj) @ map fst (dropWhile P obj))" by simp
    moreover from False split [of P]
    have "k \<notin> set (map fst (takeWhile P obj)) \<and> k \<notin> set (map fst (dropWhile P obj))"
      by (metis Un_iff set_append)
    ultimately show ?thesis by auto
  qed
  with False assms show ?thesis by (simp add: objSet_def)
qed

lemma distinct_objDelete:
  "distinct (map fst obj) \<Longrightarrow> distinct (map fst (objDelete k obj))"
  by (simp add: objDelete_def distinct_map_filter)

lemma distinct_storeEntry:
  "distinct (map fst obj) \<Longrightarrow> distinct (map fst (storeEntry sessions now obj k))"
  by (simp add: storeEntry_def distinct_objSet distinct_objDelete split: option.splits)

lemma distinct_stored:
  "distinct (map fst obj) \<Longrightarrow> distinct (map fst (foldl (storeEntry sessions now) obj ids))"
  by (induction ids arbitrary: obj) (simp_all add: distinct_storeEntry)

lemma storeEntry_other:
  "k' \<noteq> k \<Longrightarrow> map_of (storeEntry sessions now obj k) k' = map_of obj k'"
  by (simp add: storeEntry_def map_of_objSet_other map_of_objDelete_other split: option.splits)

lemma storeEntry_same:
  "map_of sessions k = Some session \<Longrightarrow>
   map_of (storeEntry sessions now obj k) k = Some (serializeSession session now)"
  by (simp add: storeEntry_def map_of_objSet_same)

lemma stored_entry:
  assumes "map_of sessions whatsappId = Some session" and "whatsappId \<in> set ids"
  shows "map_of (foldl (storeEntry sessions now) obj ids) whatsappId
           = Some (serializeSession session now)"
  using assms(2)
proof (induction ids rule: rev_induct)
  case Nil
  then show ?case by simp
next
  case (snoc k ids)
  show ?case
  proof (cases "k = whatsappId")
    case True
    with assms(1) show ?thesis by (simp add: storeEntry_same)
  next
    case False
    with snoc have "map_of (foldl (storeEntry sessions now) obj ids) whatsappId
                      = Some (serializeSession session now)"
      by simp
    with False show ?thesis
      by (simp add: storeEntry_other)
  qed
qed

lemma saveSessionsToFile_stored:
  assumes "map_of (userSessions w) whatsappId = Some session"
    and "whatsappId \<in> set ids"
    and "sessionsFile w = Missing \<or> (\<exists>stored. sessionsFile w = Parsed stored \<and> distinct (map fst stored))"
  shows "saveSessionsToFile w ids t = Inr (w\<lparr>sessionsFile := Parsed (storedTable w ids t)\<rparr>) \<and>
         distinct (map fst (storedTable w ids t)) \<and>
         map_of (storedTable w ids t) whatsappId = Some (serializeSession session t)"
proof (intro conjI)
  show "saveSessionsToFile w ids t = Inr (w\<lparr>sessionsFile := Parsed (storedTable w ids t)\<rparr>)"
    using assms(3) by (auto simp: saveSessionsToFile_def storedTable_def readJson_def writeJson_def)
  show "distinct (map fst (storedTable w ids t))"
    unfolding storedTable_def using assms(3) by (intro distinct_stored) auto
  show "map_of (storedTable w ids t) whatsappId = Some (serializeSession session t)"
    unfolding storedTable_def using assms(1,2) by (rule stored_entry)
qed

lemma mapSet_fresh: "k \<notin> set (map fst m) \<Longrightarrow> mapSet k v m = m @ [(k, v)]"
  by (induction m) auto

lemma restore_fresh:
  assumes "distinct (map fst table)" and "set (map fst table) \<inter> set (map fst (userSessions w)) = {}"
  shows "userSessions (foldl restoreEntry w table)
           = userSessions w @ map (\<lambda>entry. (fst entry, restoreSession (snd entry))) table"
  using assms
proof (induction table arbitrary: w)
  case Nil
  then show ?case by simp
next
  case (Cons entry table)
  have fresh: "fst entry \<notin> set (map fst (userSessions w))"
    using Cons.prems(2) by auto
  then have step: "userSessions (restoreEntry w entry)
      = userSessions w @ [(fst entry, restoreSession (snd entry))]"
    by (simp add: restoreEntry_def mapSet_fresh)
  have "set (map fst table) \<inter> set (map fst (userSessions (restoreEntry w entry))) = {}"
    using Cons.prems step by auto
  with Cons.IH [of "restoreEntry w entry"] Cons.prems(1) step show ?case by simp
qed

lemma sweep_sessions:
  "userSessions (foldl (sweepSession E now) w entries)
     = filter (\<lambda>kv. \<not> (\<exists>entry\<in>set entries. fst entry = fst kv \<and> expired E now (snd entry)))
         (userSessions w)"
proof (induction entries arbitrary: w)
  case Nil
  then show ?case by simp
next
  case (Cons entry entries)
  have "userSessions (sweepSession E now w entry)
          = filter (\<lambda>kv. \<not> (fst entry = fst kv \<and> expired E now (snd entry))) (userSessions w)"
    by (auto simp: sweepSession_def mapDelete_def intro: filter_cong)
  with Cons [of "sweepSession E now w entry"] show ?case
    by (auto simp: intro: filter_cong)
qed

lemma sweep_files:
  "sessionsFile (foldl (sweepSession E now) w entries) = sessionsFile w \<and>
   callScheduleFile (foldl (sweepSession E now) w entries) = callScheduleFile w"
  by (induction entries arbitrary: w) (simp_all add: sweepSession_def)

lemma cleanup_sessions:
  "userSessions (fst (cleanupExpiredSessions E w now))
     = filter (\<lambda>kv. \<not> (\<exists>entry\<in>set (userSessions w). fst entry = fst kv \<and> expired E now (snd entry)))
         (userSessions w)"
  by (auto simp: cleanupExpiredSessions_def sweep_sessions forceSave_def
        dest!: saveSessionsToFile_frame split: sum.splits)

lemma load_sessions:
  assumes "sessionsFile w = Parsed table"
  shows "userSessions (loadSessionsFromFile E w now)
           = filter (\<lambda>kv. \<not> (\<exists>entry\<in>set (userSessions (foldl restoreEntry w table)).
                               fst entry = fst kv \<and> expired E now (snd entry)))
               (userSessions (foldl restoreEntry w table))"
  using assms by (simp add: loadSessionsFromFile_def readJson_def cleanup_sessions)

lemma restarted_fields:
  "userSessions (restarted w) = [] \<and> sessionsFile (restarted w) = sessionsFile w"
  by (simp add: restarted_def)

lemma expired_key_unique:
  assumes "distinct (map fst loaded)" and "kv \<in> set loaded"
  shows "(\<exists>entry\<in>set loaded. fst entry = fst kv \<and> expired E now (snd entry))
           \<longleftrightarrow> expired E now (snd kv)"
proof
  assume "\<exists>entry\<in>set loaded. fst entry = fst kv \<and> expired E now (snd entry)"
  then obtain entry where e: "entry \<in> set loaded" "fst entry = fst kv" "expired E now (snd entry)"
    by blast
  have "(fst entry, snd entry) \<in> set loaded"
    using e(1) by simp
  then have "(fst kv, snd entry) \<in> set loaded"
    by (simp only: e(2))
  moreover from assms(2) have "(fst kv, snd kv) \<in> set loaded"
    by simp
  ultimately have "snd entry = snd kv"
    using assms(1) by (rule eq_key_imp_eq_value [rotated])
  with e(3) show "expired E now (snd kv)" by simp
next
  assume "expired E now (snd kv)"
  with assms(2) show "\<exists>entry\<in>set loaded. fst entry = fst kv \<and> expired E now (snd entry)"
    by blast
qed

lemma reload_sessions:
  assumes "sessionsFile w = Parsed table" and "distinct (map fst table)"
  shows "userSessions (loadSessionsFromFile E (restarted w) now)
           = filter (\<lambda>kv. \<not> expired E now (snd kv))
               (map (\<lambda>entry. (fst entry, restoreSession (snd entry))) table)"
proof -
  define loaded where "loaded = map (\<lambda>entry. (fst entry, restoreSession (snd entry))) table"
  have "userSessions (foldl restoreEntry (restarted w) table) = userSessions (restarted w) @ loaded"
    unfolding loaded_def by (rule restore_fresh) (simp_all add: assms(2) restarted_fields)
  then have restored: "userSessions (foldl restoreEntry (restarted w) table) = loaded"
    by (simp add: restarted_fields)
  have "map fst loaded = map fst table"
    by (simp add: loaded_def comp_def)
  with assms(2) have keys: "distinct (map fst loaded)"
    by simp
  have same: "filter (\<lambda>kv. \<not> (\<exists>entry\<in>set loaded. fst entry = fst kv \<and> expired E now (snd entry))) loaded
               = filter (\<lambda>kv. \<not> expired E now (snd kv)) loaded"
    by (rule filter_cong [OF refl]) (simp only: expired_key_unique [OF keys])
  have "sessionsFile (restarted w) = Parsed table"
    using assms(1) by (simp add: restarted_fields)
  from load_sessions [OF this, of E now]
  have "userSessions (loadSessionsFromFile E (restarted w) now)
          = filter (\<lambda>kv. \<not> (\<exists>entry\<in>set loaded. fst entry = fst kv \<and> expired E now (snd entry))) loaded"
    by (simp only: restored)
  with same show ?thesis
    by (simp only: loaded_def)
qed

lemma reload_lookup:
  assumes "sessionsFile w = Parsed table" and "distinct (map fst table)"
    and "map_of table whatsappId = Some stored"
  shows "map_of (userSessions (loadSessionsFromFile E (restarted w) now)) whatsappId
           = (if expired E now (restoreSession stored) then None else Some (restoreSession stored))"
proof -
  define loaded where "loaded = map (\<lambda>entry. (fst entry, restoreSession (snd entry))) table"
  define kept where "kept = filter (\<lambda>kv. \<not> expired E now (snd kv)) loaded"
  have "map fst loaded = map fst table"
    by (simp add: loaded_def comp_def)
  with assms(2) have keys: "distinct (map fst loaded)"
    by simp
  then have kept_keys: "distinct (map fst kept)"
    unfolding kept_def by (rule distinct_map_filter)
  have "(whatsappId, stored) \<in> set table"
    using assms(3) by (rule map_of_SomeD)
  then have mem: "(whatsappId, restoreSession stored) \<in> set loaded"
    unfolding loaded_def by force
  have sessions: "userSessions (loadSessionsFromFile E (restarted w) now) = kept"
    unfolding kept_def loaded_def by (rule reload_sessions [OF assms(1,2)])
  show ?thesis
  proof (cases "expired E now (restoreSession stored)")
    case True
    have "map_of kept whatsappId = None"
    proof (rule ccontr)
      assume "map_of kept whatsappId \<noteq> None"
      then obtain s where "map_of kept whatsappId = Some s"
        by blast
      then have "(whatsappId, s) \<in> set kept"
        by (rule map_of_SomeD)
      then have s: "(whatsappId, s) \<in> set loaded" "\<not> expired E now s"
        by (simp_all add: kept_def)
      from keys s(1) mem have "s = restoreSession stored"
        by (rule eq_key_imp_eq_value)
      with s(2) True show False by simp
    qed
    with True sessions show ?thesis by simp
  next
    case False
    with mem have "(whatsappId, restoreSession stored) \<in> set kept"
      by (simp add: kept_def)
    with kept_keys have "map_of kept whatsappId = Some (restoreSession stored)"
      by (rule map_of_is_SomeI)
    with False sessions show ?thesis by simp
  qed
qed

lemma expired_restore:
  "expired E now (restoreSession (serializeSession session t)) = expired E now session"
  by (simp add: expired_def restoreSession_def serializeSession_def)


lemma flush_and_reload:
  assumes "map_of (userSessions w) whatsappId = Some session"
    and "whatsappId \<in> set ids"
    and "sessionsFile w = Missing \<or>
         (\<exists>stored. sessionsFile w = Parsed stored \<and> distinct (map fst stored))"
  shows "\<exists>w'. saveSessionsToFile w ids t = Inr w' \<and>
              map_of (userSessions (loadSessionsFromFile E (restarted w') now)) whatsappId
                = (if expired E now session then None
                   else Some (restoreSession (serializeSession session t)))"
proof -
  let ?w' = "w\<lparr>sessionsFile := Parsed (storedTable w ids t)\<rparr>"
  note saved = saveSessionsToFile_stored [OF assms, of t]
  have "sessionsFile ?w' = Parsed (storedTable w ids t)"
    by simp
  from reload_lookup [OF this, of whatsappId "serializeSession session t" E now] saved
  have "map_of (userSessions (loadSessionsFromFile E (restarted ?w') now)) whatsappId
          = (if expired E now session then None
             else Some (restoreSession (serializeSession session t)))"
    by (simp only: expired_restore)
  with saved show ?thesis by blast
qed

lemma objSet_empty: "objSet k v [] = [(k, v)]"
  by (simp add: objSet_def)

lemma confirmingSession_held:
  "map_of (userSessions (worldWith confirmingSession [])) ''919999999999@c.us''
     = Some confirmingSession"
  by (simp add: worldWith_def)

lemma worldWith_sessionsFile: "sessionsFile (worldWith s bookings) = Missing"
  by (simp add: worldWith_def emptyWorld_def)

lemma confirmingSession_fresh:
  "\<not> expired (referenceEnv l sc) 1793600060000 confirmingSession"
  by (simp add: expired_def referenceEnv_def confirmingSession_def sessionIn_def newSession_def)

text \<open>
  Claim C8, as the code has it. A session of the map is written by \<open>saveSessionsToFile\<close>
  (the present file missing, or holding an object) and the file is loaded by
  \<open>loadSessionsFromFile\<close> in a new process at the instant \<open>now\<close>. If the last activity of
  the session is at most the configured number of days before \<open>now\<close>, the new map holds
  under the same identifier a session with the same state, the same data and the same
  instants \<open>createdAt\<close> and \<open>lastActivity\<close>, to the millisecond. If it is older, the sweep
  that ends the loading has deleted the session: the new map holds nothing under the
  identifier.
\<close>

theorem session_round_trip:
  assumes "map_of (userSessions w) whatsappId = Some session"
    and "whatsappId \<in> set ids"
    and "sessionsFile w = Missing \<or>
         (\<exists>stored. sessionsFile w = Parsed stored \<and> distinct (map fst stored))"
  shows "\<exists>w'. saveSessionsToFile w ids t = Inr w' \<and>
              (\<not> expired E now session \<longrightarrow>
                 (\<exists>s'. map_of (userSessions (loadSessionsFromFile E (restarted w') now)) whatsappId
                         = Some s' \<and>
                       state s' = state session \<and> data s' = data session \<and>
                       createdAt s' = createdAt session \<and>
                       lastActivity s' = lastActivity session)) \<and>
              (expired E now session \<longrightarrow>
                 map_of (userSessions (loadSessionsFromFile E (restarted w') now)) whatsappId
                   = None)"
proof -
  from flush_and_reload [OF assms, of t E now]
  obtain w' where saved: "saveSessionsToFile w ids t = Inr w'"
    and loaded: "map_of (userSessions (loadSessionsFromFile E (restarted w') now)) whatsappId
                   = (if expired E now session then None
                      else Some (restoreSession (serializeSession session t)))"
    by blast
  have "state (restoreSession (serializeSession session t)) = state session"
    and "data (restoreSession (serializeSession session t)) = data session"
    and "createdAt (restoreSession (serializeSession session t)) = createdAt session"
    and "lastActivity (restoreSession (serializeSession session t)) = lastActivity session"
    by (simp_all add: restoreSession_def serializeSession_def)
  with saved loaded show ?thesis
    by (intro exI [of _ w']) simp
qed

theorem session_round_trip_witness:
  "map_of (userSessions (worldWith confirmingSession [])) ''919999999999@c.us''
     = Some confirmingSession \<and>
   sessionsFile (worldWith confirmingSession []) = Missing \<and>
   \<not> expired (referenceEnv [] 0) 1793600060000 confirmingSession \<and>
   (\<exists>w'. saveSessionsToFile (worldWith confirmingSession []) [''919999999999@c.us''] 1793600000500
           = Inr w' \<and>
         (\<exists>s'. map_of (userSessions
                         (loadSessionsFromFile (referenceEnv [] 0) (restarted w') 1793600060000))
                   ''919999999999@c.us'' = Some s' \<and>
               state s' = CONFIRMING_SCHEDULE \<and> data s' = JObject [] \<and>
               createdAt s' = 1793600000000 \<and> lastActivity s' = 1793600000000))"
proof -
  have fields: "state confirmingSession = CONFIRMING_SCHEDULE"
    "data confirmingSession = JObject []"
    "createdAt confirmingSession = 1793600000000"
    "lastActivity confirmingSession = 1793600000000"
    by (simp_all add: confirmingSession_def sessionIn_def newSession_def)
  note fresh = confirmingSession_fresh [of "[]" 0]
  from session_round_trip
         [where w = "worldWith confirmingSession []" and whatsappId = "''919999999999@c.us''"
            and session = confirmingSession and ids = "[''919999999999@c.us'']"
            and t = 1793600000500 and E = "referenceEnv [] 0" and now = 1793600060000,
          OF confirmingSession_held]
       fresh
  have "\<exists>w'. saveSessionsToFile (worldWith confirmingSession []) [''919999999999@c.us''] 1793600000500
           = Inr w' \<and>
         (\<exists>s'. map_of (userSessions
                         (loadSessionsFromFile (referenceEnv [] 0) (restarted w') 1793600060000))
                   ''919999999999@c.us'' = Some s' \<and>
               state s' = CONFIRMING_SCHEDULE \<and> data s' = JObject [] \<and>
               createdAt s' = 1793600000000 \<and> lastActivity s' = 1793600000000)"
    by (simp add: worldWith_sessionsFile fields)
  with confirmingSession_held worldWith_sessionsFile [of confirmingSession "[]"] fresh
  show ?thesis by blast
qed

text \<open>
  A session whose last activity is eight days old when the process starts again, with
  the configured seven days: it is in the map, it is written to the file, and after the
  loading the map holds no session for its identifier.
\<close>

theorem expired_session_not_reloaded:
  "map_of (userSessions staleWorld) ''919999999999@c.us'' = Some staleSession \<and>
   saveSessionsToFile staleWorld [''919999999999@c.us''] 2000000 = Inr staleSaved \<and>
   map_of (userSessions (loadSessionsFromFile (referenceEnv [] 0) (restarted staleSaved) 700000000))
     ''919999999999@c.us'' = None"
proof -
  have held: "map_of (userSessions staleWorld) ''919999999999@c.us'' = Some staleSession"
    by (simp add: staleWorld_def)
  have saved: "saveSessionsToFile staleWorld [''919999999999@c.us''] 2000000 = Inr staleSaved"
    by (simp add: saveSessionsToFile_def staleWorld_def staleSaved_def emptyWorld_def
          writeJson_def storeEntry_def objSet_empty)
  have table: "sessionsFile staleSaved
                = Parsed [(''919999999999@c.us'', serializeSession staleSession 2000000)]"
    by (simp add: staleSaved_def)
  have "expired (referenceEnv [] 0) 700000000 staleSession"
    by (simp add: expired_def referenceEnv_def staleSession_def newSession_def)
  then have old: "expired (referenceEnv [] 0) 700000000
               (restoreSession (serializeSession staleSession 2000000))"
    by (simp only: expired_restore)
  from reload_lookup
         [OF table, of "''919999999999@c.us''" "serializeSession staleSession 2000000"
            "referenceEnv [] 0" 700000000] old
  have "map_of (userSessions (loadSessionsFromFile (referenceEnv [] 0) (restarted staleSaved)
                                700000000))
          ''919999999999@c.us'' = None"
    by simp
  with held saved show ?thesis by blast
qed

text \<open>
  Claim C9. The object that \<open>serializeSession\<close> builds has the fields \<open>state\<close>,
  \<open>currentQuestion\<close>, \<open>data\<close>, \<open>createdAt\<close>, \<open>lastActivity\<close>, \<open>waitingForFreeText\<close>,
  \<open>freeTextContext\<close> and \<open>metadata\<close> and no others, and it is determined by the fields of
  these names of the session: two sessions that differ only in the clarification counter,
  the partial, the pending or the final schedule are serialized to the same object. So
  when a session of the map is written by \<open>saveSessionsToFile\<close> and the file is loaded in
  a new process, the session found under the identifier has no clarification counter and
  no partial, pending or final schedule; and such a session is found unless the session
  has expired.
\<close>

theorem candidates_not_persisted:
  assumes "map_of (userSessions w) whatsappId = Some session"
    and "whatsappId \<in> set ids"
    and "sessionsFile w = Missing \<or>
         (\<exists>stored. sessionsFile w = Parsed stored \<and> distinct (map fst stored))"
  shows "(state other = state session \<and> currentQuestion other = currentQuestion session \<and>
          data other = data session \<and> createdAt other = createdAt session \<and>
          lastActivity other = lastActivity session \<and>
          waitingForFreeText other = waitingForFreeText session \<and>
          freeTextContext other = freeTextContext session \<and>
          metadata other = metadata session \<longrightarrow>
            serializeSession other t = serializeSession session t) \<and>
         (\<exists>w'. saveSessionsToFile w ids t = Inr w' \<and>
               (\<forall>s'. map_of (userSessions (loadSessionsFromFile E (restarted w') now)) whatsappId
                        = Some s' \<longrightarrow>
                     clarificationAttempts s' = None \<and> partialSchedule s' = None \<and>
                     pendingSchedule s' = None \<and> finalSchedule s' = None) \<and>
               (\<not> expired E now session \<longrightarrow>
                  map_of (userSessions (loadSessionsFromFile E (restarted w') now)) whatsappId
                    \<noteq> None))"
proof (intro conjI)
  show "state other = state session \<and> currentQuestion other = currentQuestion session \<and>
          data other = data session \<and> createdAt other = createdAt session \<and>
          lastActivity other = lastActivity session \<and>
          waitingForFreeText other = waitingForFreeText session \<and>
          freeTextContext other = freeTextContext session \<and>
          metadata other = metadata session \<longrightarrow>
            serializeSession other t = serializeSession session t"
    by (simp add: serializeSession_def)
  from flush_and_reload [OF assms, of t E now]
  obtain w' where saved: "saveSessionsToFile w ids t = Inr w'"
    and loaded: "map_of (userSessions (loadSessionsFromFile E (restarted w') now)) whatsappId
                   = (if expired E now session then None
                      else Some (restoreSession (serializeSession session t)))"
    by blast
  have "clarificationAttempts (restoreSession (serializeSession session t)) = None"
    and "partialSchedule (restoreSession (serializeSession session t)) = None"
    and "pendingSchedule (restoreSession (serializeSession session t)) = None"
    and "finalSchedule (restoreSession (serializeSession session t)) = None"
    by (simp_all add: restoreSession_def)
  with saved loaded
  show "\<exists>w'. saveSessionsToFile w ids t = Inr w' \<and>
               (\<forall>s'. map_of (userSessions (loadSessionsFromFile E (restarted w') now)) whatsappId
                        = Some s' \<longrightarrow>
                     clarificationAttempts s' = None \<and> partialSchedule s' = None \<and>
                     pendingSchedule s' = None \<and> finalSchedule s' = None) \<and>
               (\<not> expired E now session \<longrightarrow>
                  map_of (userSessions (loadSessionsFromFile E (restarted w') now)) whatsappId
                    \<noteq> None)"
    by (intro exI [of _ w']) (auto split: if_splits)
qed

theorem candidates_not_persisted_witness:
  "map_of (userSessions (worldWith confirmingSession [])) ''919999999999@c.us''
     = Some confirmingSession \<and>
   sessionsFile (worldWith confirmingSession []) = Missing \<and>
   pendingSchedule confirmingSession = Some demoPending \<and>
   partialSchedule confirmingSession \<noteq> None \<and>
   pendingSchedule (sessionIn CONFIRMING_SCHEDULE) = None \<and>
   \<not> expired (referenceEnv [] 0) 1793600060000 confirmingSession \<and>
   serializeSession (sessionIn CONFIRMING_SCHEDULE) 1793600000500
     = serializeSession confirmingSession 1793600000500 \<and>
   (\<exists>w'. saveSessionsToFile (worldWith confirmingSession []) [''919999999999@c.us''] 1793600000500
           = Inr w' \<and>
         (\<exists>s'. map_of (userSessions
                         (loadSessionsFromFile (referenceEnv [] 0) (restarted w') 1793600060000))
                   ''919999999999@c.us'' = Some s' \<and>
               pendingSchedule s' = None \<and> partialSchedule s' = None))"
proof -
  have pe: "pendingSchedule confirmingSession = Some demoPending"
    and pa: "partialSchedule confirmingSession \<noteq> None"
    and bare: "pendingSchedule (sessionIn CONFIRMING_SCHEDULE) = None"
    by (simp_all add: confirmingSession_def sessionIn_def newSession_def)
  note fresh = confirmingSession_fresh [of "[]" 0]
  note kept = candidates_not_persisted
         [where w = "worldWith confirmingSession []" and whatsappId = "''919999999999@c.us''"
            and session = confirmingSession and ids = "[''919999999999@c.us'']"
            and other = "sessionIn CONFIRMING_SCHEDULE"
            and t = 1793600000500 and E = "referenceEnv [] 0" and now = 1793600060000,
          OF confirmingSession_held]
  have same: "serializeSession (sessionIn CONFIRMING_SCHEDULE) 1793600000500
     = serializeSession confirmingSession 1793600000500"
    using kept by (simp add: worldWith_sessionsFile confirmingSession_def)
  from kept fresh
  have "\<exists>w'. saveSessionsToFile (worldWith confirmingSession []) [''919999999999@c.us''] 1793600000500
           = Inr w' \<and>
         (\<exists>s'. map_of (userSessions
                         (loadSessionsFromFile (referenceEnv [] 0) (restarted w') 1793600060000))
                   ''919999999999@c.us'' = Some s' \<and>
               pendingSchedule s' = None \<and> partialSchedule s' = None)"
    by (simp add: worldWith_sessionsFile) blast
  with confirmingSession_held worldWith_sessionsFile [of confirmingSession "[]"] fresh pe pa bare same
  show ?thesis by blast
qed
subsection \<open>Weekdays\<close>

lemma dayNumber_addDays: "dayNumber (addDays t n) = dayNumber t + n"
  by (simp add: dayNumber_def addDays_def msPerDay_def)

lemma momentDay_addDays: "momentDay (addDays t n) = (momentDay t + n) mod 7"
  by (simp add: momentDay_def dayNumber_addDays mod_simps add.assoc add.commute [of n])

lemma momentDay_range: "0 \<le> momentDay t \<and> momentDay t \<le> 6"
  by (simp add: momentDay_def)

lemma format_DDMMYYYY_not_empty: "format_DDMMYYYY t \<noteq> []"
  by (simp add: format_DDMMYYYY_def split: prod.splits)

lemma getNextWeekday_not_empty: "getNextWeekday now targetDay \<noteq> []"
  by (simp add: getNextWeekday_def Let_def format_DDMMYYYY_not_empty)

lemma getNextWeekday_days:
  assumes "0 \<le> targetDay" and "targetDay \<le> 6"
  shows "\<exists>k. getNextWeekday now targetDay = format_DDMMYYYY (addDays now k) \<and>
             1 \<le> k \<and> k \<le> 7 \<and>
             dayNumber (addDays now k) = dayNumber now + k \<and>
             momentDay (addDays now k) = targetDay \<and>
             (k = 7 \<longleftrightarrow> momentDay now = targetDay) \<and>
             (\<forall>j. 1 \<le> j \<and> j < k \<longrightarrow> momentDay (addDays now j) \<noteq> targetDay)"
proof -
  define m where "m = momentDay now"
  define k where "k = (if targetDay - m \<le> 0 then targetDay - m + 7 else targetDay - m)"
  have m: "0 \<le> m" "m \<le> 6"
    using momentDay_range [of now] by (simp_all add: m_def)
  have "getNextWeekday now targetDay = format_DDMMYYYY (addDays now k)"
    by (simp add: getNextWeekday_def Let_def k_def m_def)
  moreover have "1 \<le> k" "k \<le> 7"
    using assms m by (simp_all add: k_def)
  moreover have "(m + k) mod 7 = targetDay"
    using assms m by (auto simp: k_def)
  moreover have "k = 7 \<longleftrightarrow> m = targetDay"
    using assms m by (auto simp: k_def)
  moreover have "(m + j) mod 7 \<noteq> targetDay" if "1 \<le> j" and "j < k" for j
  proof (cases "targetDay - m \<le> 0")
    case True
    with that have "targetDay < m + j" "m + j < targetDay + 7"
      by (simp_all add: k_def)
    then show ?thesis by presburger
  next
    case False
    with that assms have "0 \<le> m + j" "m + j < 7" "m + j \<noteq> targetDay"
      using m by (simp_all add: k_def)
    then show ?thesis by simp
  qed
  ultimately show ?thesis
    by (intro exI [of _ k]) (simp add: dayNumber_addDays momentDay_addDays m_def)
qed

lemma firstDateMatch_skip:
  assumes "\<forall>row\<in>set rows. \<not> regexTest uc False (fst row) lowerText"
  shows "firstDateMatch uc (rows @ later) lowerText now = firstDateMatch uc later lowerText now"
  using assms by (induction rows) (auto simp: case_prod_beta)

lemma firstDateMatch_nth:
  assumes "i < length rows"
    and "\<forall>j<i. \<not> regexTest uc False (fst (rows ! j)) lowerText"
    and "regexTest uc False (fst (rows ! i)) lowerText"
    and "snd (rows ! i) now \<noteq> []"
  shows "firstDateMatch uc rows lowerText now = Some (snd (rows ! i) now)"
  using assms
proof (induction rows arbitrary: i)
  case Nil
  then show ?case by simp
next
  case (Cons row rows)
  obtain pattern handler where row: "row = (pattern, handler)"
    by (cases row)
  show ?case
  proof (cases i)
    case 0
    with Cons.prems row show ?thesis by simp
  next
    case (Suc n)
    from Cons.prems(2) Suc have first: "\<not> regexTest uc False pattern lowerText"
      using row by force
    have "\<forall>j<n. \<not> regexTest uc False (fst (rows ! j)) lowerText"
      using Cons.prems(2) Suc by force
    with Cons.IH [of n] Cons.prems Suc
    have "firstDateMatch uc rows lowerText now = Some (snd (rows ! n) now)"
      by simp
    with first row Suc show ?thesis by simp
  qed
qed

lemma weekdayPatterns_nth:
  assumes "i < length weekdayPatterns"
  shows "snd (weekdayPatterns ! i) = (\<lambda>now. getNextWeekday now ((int i + 1) mod 7))"
proof -
  from assms have "i < 7"
    by (simp add: weekdayPatterns_def)
  then consider "i = 0" | "i = 1" | "i = 2" | "i = 3" | "i = 4" | "i = 5" | "i = 6"
    by linarith
  then show ?thesis
    by cases (simp_all add: weekdayPatterns_def)
qed

text \<open>
  Claim C7. Let the lowered and trimmed text match none of the relative date patterns
  (yesterday, today, tomorrow, day after tomorrow), and let row \<open>i\<close> of the weekday rows be
  the first one whose pattern it matches; the rows are Monday to Sunday, so the row names
  the weekday index \<open>(i + 1) mod 7\<close>. Then the resolved date is the rendering of the
  reference instant moved forward by \<open>k\<close> days, where \<open>k\<close> is between 1 and 7: the day of
  the result is \<open>k\<close> days after the reference day, so strictly after it; it falls on the
  named weekday; \<open>k\<close> is 7 exactly when the reference day is itself the named weekday; and
  no day strictly between the reference day and the result falls on the named weekday.
\<close>

theorem weekday_resolution:
  assumes "i < length weekdayPatterns"
    and "\<forall>row\<in>set relativeDatePatterns.
           \<not> regexTest (toUpperCase1 E) False (fst row) (trim (toLowerCase E body))"
    and "\<forall>j<i. \<not> regexTest (toUpperCase1 E) False (fst (weekdayPatterns ! j))
                   (trim (toLowerCase E body))"
    and "regexTest (toUpperCase1 E) False (fst (weekdayPatterns ! i)) (trim (toLowerCase E body))"
  shows "\<exists>k. r_date (parseTimeWithTinyLlama E body now)
               = Some (getNextWeekday now ((int i + 1) mod 7)) \<and>
             hasDate (parseTimeWithTinyLlama E body now) \<and>
             getNextWeekday now ((int i + 1) mod 7) = format_DDMMYYYY (addDays now k) \<and>
             1 \<le> k \<and> k \<le> 7 \<and>
             dayNumber (addDays now k) = dayNumber now + k \<and>
             momentDay (addDays now k) = (int i + 1) mod 7 \<and>
             (k = 7 \<longleftrightarrow> momentDay now = (int i + 1) mod 7) \<and>
             (\<forall>j. 1 \<le> j \<and> j < k \<longrightarrow> momentDay (addDays now j) \<noteq> (int i + 1) mod 7)"
proof -
  let ?t = "trim (toLowerCase E body)"
  let ?d = "(int i + 1) mod 7"
  have handler: "snd (weekdayPatterns ! i) now = getNextWeekday now ?d"
    by (simp add: weekdayPatterns_nth [OF assms(1)])
  then have "snd (weekdayPatterns ! i) now \<noteq> []"
    by (simp add: getNextWeekday_not_empty)
  with assms(1,3,4)
  have "firstDateMatch (toUpperCase1 E) weekdayPatterns ?t now
          = Some (snd (weekdayPatterns ! i) now)"
    by (rule firstDateMatch_nth)
  with assms(2) handler
  have "firstDateMatch (toUpperCase1 E) (relativeDatePatterns @ weekdayPatterns) ?t now
          = Some (getNextWeekday now ?d)"
    by (simp add: firstDateMatch_skip)
  then have "parseDate E ?t now = Some (getNextWeekday now ?d)"
    by (simp add: parseDate_def)
  then have resolved: "r_date (parseTimeWithTinyLlama E body now) = Some (getNextWeekday now ?d)"
      "hasDate (parseTimeWithTinyLlama E body now)"
    by (simp_all add: parseTimeWithTinyLlama_def Let_def)
  have "0 \<le> ?d" "?d \<le> 6"
    by simp_all
  from getNextWeekday_days [OF this, of now] resolved show ?thesis
    by blast
qed

lemma decimal_digit: "n < 10 \<Longrightarrow> decimal n = [digitChar n]"
  by (simp add: decimal.simps)

lemma decimal_step: "10 \<le> n \<Longrightarrow> decimal n = decimal (n div 10) @ [digitChar n]"
  by (subst decimal.simps) simp

lemmas format_eval =
  format_DDMMYYYY_def format_HHmm_def dayNumber_def addDays_def msPerDay_def msPerMinute_def
  civilFromDays_def civilOfEra_def civilOfYear_def civilOfDay_def civilOfMonth_def
  zeroFill_def decimal_digit decimal_step digitChar_def

lemma monday_0211:
  "momentDay 1793615400000 = 1 \<and> format_DDMMYYYY 1793615400000 = ''02/11/2026''"
  by (simp add: momentDay_def format_eval)

lemma format_0911: "format_DDMMYYYY (addDays 1793615400000 7) = ''09/11/2026''"
  by (simp add: format_eval)

lemma format_0611: "format_DDMMYYYY (addDays 1793615400000 4) = ''06/11/2026''"
  by (simp add: format_eval)

lemma lowered_monday: "trim (toLowerCase (referenceEnv l sc) (js ''Monday'')) = js ''monday''"
  by (simp add: referenceEnv_def asciiToLowerCase_def trim_def js_def isTrimSpace_def)

lemma lowered_friday: "trim (toLowerCase (referenceEnv l sc) (js ''friday'')) = js ''friday''"
  by (simp add: referenceEnv_def asciiToLowerCase_def trim_def js_def isTrimSpace_def)

lemma monday_not_relative:
  "\<forall>row\<in>set relativeDatePatterns. \<not> regexTest (\<lambda>c. c) False (fst row) (js ''monday'')"
proof -
  have "\<not> regexTest (\<lambda>c. c) False [''yesterday'', ''yest''] (js ''monday'')"
    and "\<not> regexTest (\<lambda>c. c) False [''today'', ''tod''] (js ''monday'')"
    and "\<not> regexTest (\<lambda>c. c) False [''tomorrow'', ''tmrw'', ''tom''] (js ''monday'')"
    and "\<not> regexTest (\<lambda>c. c) False [''day after tomorrow'', ''overmorrow''] (js ''monday'')"
    by code_simp+
  then show ?thesis
    by (simp add: relativeDatePatterns_def)
qed

lemma friday_not_relative:
  "\<forall>row\<in>set relativeDatePatterns. \<not> regexTest (\<lambda>c. c) False (fst row) (js ''friday'')"
proof -
  have "\<not> regexTest (\<lambda>c. c) False [''yesterday'', ''yest''] (js ''friday'')"
    and "\<not> regexTest (\<lambda>c. c) False [''today'', ''tod''] (js ''friday'')"
    and "\<not> regexTest (\<lambda>c. c) False [''tomorrow'', ''tmrw'', ''tom''] (js ''friday'')"
    and "\<not> regexTest (\<lambda>c. c) False [''day after tomorrow'', ''overmorrow''] (js ''friday'')"
    by code_simp+
  then show ?thesis
    by (simp add: relativeDatePatterns_def)
qed

lemma monday_row: "regexTest (\<lambda>c. c) False (fst (weekdayPatterns ! 0)) (js ''monday'')"
proof -
  have "regexTest (\<lambda>c. c) False [''monday'', ''mon''] (js ''monday'')"
    by code_simp
  then show ?thesis
    by (simp add: weekdayPatterns_def)
qed

lemma friday_row:
  "regexTest (\<lambda>c. c) False (fst (weekdayPatterns ! 4)) (js ''friday'') \<and>
   (\<forall>j<4. \<not> regexTest (\<lambda>c. c) False (fst (weekdayPatterns ! j)) (js ''friday''))"
proof -
  have "regexTest (\<lambda>c. c) False [''friday'', ''fri''] (js ''friday'')"
    and "\<not> regexTest (\<lambda>c. c) False [''monday'', ''mon''] (js ''friday'')"
    and "\<not> regexTest (\<lambda>c. c) False [''tuesday'', ''tue'', ''tues''] (js ''friday'')"
    and "\<not> regexTest (\<lambda>c. c) False [''wednesday'', ''wed''] (js ''friday'')"
    and "\<not> regexTest (\<lambda>c. c) False [''thursday'', ''thu'', ''thurs''] (js ''friday'')"
    by code_simp+
  then have rows: "regexTest (\<lambda>c. c) False (fst (weekdayPatterns ! 4)) (js ''friday'')"
    "\<not> regexTest (\<lambda>c. c) False (fst (weekdayPatterns ! 0)) (js ''friday'')"
    "\<not> regexTest (\<lambda>c. c) False (fst (weekdayPatterns ! 1)) (js ''friday'')"
    "\<not> regexTest (\<lambda>c. c) False (fst (weekdayPatterns ! 2)) (js ''friday'')"
    "\<not> regexTest (\<lambda>c. c) False (fst (weekdayPatterns ! 3)) (js ''friday'')"
    by (simp_all add: weekdayPatterns_def)
  have "\<not> regexTest (\<lambda>c. c) False (fst (weekdayPatterns ! j)) (js ''friday'')" if "j < 4" for j
  proof -
    from that consider "j = 0" | "j = 1" | "j = 2" | "j = 3"
      by linarith
    then show ?thesis
      by cases (simp_all only: rows not_False_eq_True)
  qed
  with rows(1) show ?thesis
    by blast
qed

theorem weekday_resolution_witness:
  "trim (toLowerCase (referenceEnv [] 0) (js ''Monday'')) = js ''monday'' \<and>
   momentDay 1793615400000 = 1 \<and>
   format_DDMMYYYY 1793615400000 = ''02/11/2026'' \<and>
   regexTest (toUpperCase1 (referenceEnv [] 0)) False (fst (weekdayPatterns ! 0)) (js ''monday'') \<and>
   r_date (parseTimeWithTinyLlama (referenceEnv [] 0) (js ''Monday'') 1793615400000)
     = Some ''09/11/2026'' \<and>
   regexTest (toUpperCase1 (referenceEnv [] 0)) False (fst (weekdayPatterns ! 4)) (js ''friday'') \<and>
   r_date (parseTimeWithTinyLlama (referenceEnv [] 0) (js ''friday'') 1793615400000)
     = Some ''06/11/2026''"
proof -
  let ?E = "referenceEnv [] 0"
  let ?now = "1793615400000 :: int"
  have uc: "toUpperCase1 ?E = (\<lambda>c. c)"
    by (simp add: referenceEnv_def)
  have len: "0 < length weekdayPatterns" "4 < length weekdayPatterns"
    by (simp_all add: weekdayPatterns_def)
  note day = monday_0211
  from weekday_resolution
         [where i = 0 and E = ?E and body = "js ''Monday''" and now = ?now, OF len(1)]
  obtain k where k: "r_date (parseTimeWithTinyLlama ?E (js ''Monday'') ?now)
                       = Some (getNextWeekday ?now 1)"
      "getNextWeekday ?now 1 = format_DDMMYYYY (addDays ?now k)"
      "k = 7 \<longleftrightarrow> momentDay ?now = 1"
    by (auto simp: uc lowered_monday monday_not_relative monday_row)
  from k(3) day have "k = 7" by simp
  with k(1,2) have monday: "r_date (parseTimeWithTinyLlama ?E (js ''Monday'') ?now)
                              = Some ''09/11/2026''"
    by (simp add: format_0911)
  from weekday_resolution
         [where i = 4 and E = ?E and body = "js ''friday''" and now = ?now, OF len(2)]
  obtain n where n: "r_date (parseTimeWithTinyLlama ?E (js ''friday'') ?now)
                       = Some (getNextWeekday ?now 5)"
      "getNextWeekday ?now 5 = format_DDMMYYYY (addDays ?now n)"
      "1 \<le> n" "n \<le> 7" "momentDay (addDays ?now n) = 5"
    by (auto simp: uc lowered_friday friday_not_relative friday_row)
  from n(5) day have "(1 + n) mod 7 = 5"
    by (simp add: momentDay_addDays)
  with n(3,4) have "n = 4" by presburger
  with n(1,2) have friday: "r_date (parseTimeWithTinyLlama ?E (js ''friday'') ?now)
                              = Some ''06/11/2026''"
    by (simp add: format_0611)
  from monday friday day lowered_monday [of "[]" 0] monday_row friday_row uc
  show ?thesis by simp
qed
subsection \<open>Immediate requests\<close>

lemma startOfMinute_buffer: "\<not> startOfMinute now < addMinutes now (- 1)"
proof -
  have "now mod 60000 < 60000"
    by simp
  then show ?thesis
    by (simp add: startOfMinute_def addMinutes_def msPerMinute_def)
qed

text \<open>
  Claim C4. When the lowered text matches one of the immediate keyword patterns,
  \<open>parseTimeExpression\<close> returns, for every reference instant, the complete result flagged
  immediate, with both a date and a time, whose date and time are the renderings of the
  reference instant itself. The driver never rejects this result as past, because its
  guard skips the past-time check for a result flagged immediate. The past-time check
  itself, applied to this result and the same reference instant, answers false: at once
  when the text matches the check's own keyword pattern, and otherwise because the
  instant that the date library reads from the two renderings, the start of the reference
  instant's minute, is not before the reference instant minus one minute (the check also
  answers false when the library rejects the renderings).
\<close>

theorem immediate_resolution:
  assumes "isImmediate E (toLowerCase E body)"
  shows "parseTimeExpression E body now =
           \<lparr>success = True, r_date = Some (format_DDMMYYYY now), r_time = Some (format_HHmm now),
            hasDate = True, hasTime = True,
            r_formatted = Some (format_DDMMYYYY now @ ''::'' @ format_HHmm now),
            needsDate = False, needsTime = False,
            complete = True, partial = False, immediate = True\<rparr> \<and>
         \<not> pastTimeRejected E (parseTimeExpression E body now) now body \<and>
         (regexTest (toUpperCase1 E) True pastCheckImmediateKeywords body \<or>
          momentParse E (format_DDMMYYYY now @ '' '' @ format_HHmm now) = None \<or>
          momentParse E (format_DDMMYYYY now @ '' '' @ format_HHmm now) = Some (startOfMinute now)
            \<longrightarrow> \<not> isDateTimeInPast E (format_DDMMYYYY now) (format_HHmm now) now body)"
proof -
  have result: "parseTimeExpression E body now =
           \<lparr>success = True, r_date = Some (format_DDMMYYYY now), r_time = Some (format_HHmm now),
            hasDate = True, hasTime = True,
            r_formatted = Some (format_DDMMYYYY now @ ''::'' @ format_HHmm now),
            needsDate = False, needsTime = False,
            complete = True, partial = False, immediate = True\<rparr>"
    using assms by (simp add: parseTimeExpression_def Let_def)
  have guard: "\<not> pastTimeRejected E (parseTimeExpression E body now) now body"
    by (simp add: result pastTimeRejected_def)
  have check: "\<not> isDateTimeInPast E (format_DDMMYYYY now) (format_HHmm now) now body"
    if "regexTest (toUpperCase1 E) True pastCheckImmediateKeywords body \<or>
        momentParse E (format_DDMMYYYY now @ '' '' @ format_HHmm now) = None \<or>
        momentParse E (format_DDMMYYYY now @ '' '' @ format_HHmm now) = Some (startOfMinute now)"
    using that by (auto simp: isDateTimeInPast_def Let_def startOfMinute_buffer)
  from result guard check show ?thesis
    by blast
qed

lemma lowered_pronto: "toLowerCase (referenceEnv l sc) (js ''Pronto'') = js ''pronto''"
  by (simp add: referenceEnv_def asciiToLowerCase_def js_def)

lemma pronto_immediate: "isImmediate (referenceEnv l sc) (js ''pronto'')"
proof -
  have "regexTestUnits (\<lambda>c. c) True
          (map js [''pronto'', ''stat'', ''quick'', ''quickly'', ''fast'', ''rapid'', ''swift'',
                   ''prompt'', ''without delay'', ''no delay''])
          (js ''pronto'')"
    by code_simp
  then show ?thesis
    by (simp add: isImmediate_def immediateKeywords_def referenceEnv_def)
qed

lemma pronto_not_keyword:
  "\<not> regexTest (\<lambda>c. c) True pastCheckImmediateKeywords (js ''Pronto'')"
  by code_simp

lemma formats_1030:
  "format_DDMMYYYY 1793615401234 = ''02/11/2026'' \<and> format_HHmm 1793615401234 = ''10:30'' \<and>
   startOfMinute 1793615401234 = 1793615400000"
  by (simp add: format_eval startOfMinute_def)

theorem immediate_resolution_witness:
  "isImmediate (referenceEnv [] 0) (toLowerCase (referenceEnv [] 0) (js ''Pronto'')) \<and>
   \<not> regexTest (toUpperCase1 (referenceEnv [] 0)) True pastCheckImmediateKeywords (js ''Pronto'') \<and>
   momentParse (referenceEnv [] 0) (format_DDMMYYYY 1793615401234 @ '' '' @ format_HHmm 1793615401234)
     = Some (startOfMinute 1793615401234) \<and>
   parseTimeExpression (referenceEnv [] 0) (js ''Pronto'') 1793615401234 =
     \<lparr>success = True, r_date = Some ''02/11/2026'', r_time = Some ''10:30'',
      hasDate = True, hasTime = True, r_formatted = Some ''02/11/2026::10:30'',
      needsDate = False, needsTime = False,
      complete = True, partial = False, immediate = True\<rparr> \<and>
   \<not> pastTimeRejected (referenceEnv [] 0)
       (parseTimeExpression (referenceEnv [] 0) (js ''Pronto'') 1793615401234)
       1793615401234 (js ''Pronto'') \<and>
   \<not> isDateTimeInPast (referenceEnv [] 0) ''02/11/2026'' ''10:30'' 1793615401234 (js ''Pronto'')"
proof -
  let ?E = "referenceEnv [] 0"
  have imm: "isImmediate ?E (toLowerCase ?E (js ''Pronto''))"
    by (simp only: lowered_pronto pronto_immediate)
  have uc: "toUpperCase1 ?E = (\<lambda>c. c)"
    by (simp add: referenceEnv_def)
  have parsed: "momentParse ?E (format_DDMMYYYY 1793615401234 @ '' '' @ format_HHmm 1793615401234)
                  = Some (startOfMinute 1793615401234)"
    by (simp add: formats_1030 parse_1030)
  note r = immediate_resolution [where E = ?E and body = "js ''Pronto''" and now = 1793615401234,
             OF imm]
  from r have 1: "parseTimeExpression ?E (js ''Pronto'') 1793615401234 =
     \<lparr>success = True, r_date = Some ''02/11/2026'', r_time = Some ''10:30'',
      hasDate = True, hasTime = True, r_formatted = Some ''02/11/2026::10:30'',
      needsDate = False, needsTime = False,
      complete = True, partial = False, immediate = True\<rparr>"
    by (simp add: formats_1030)
  from r have 2: "\<not> pastTimeRejected ?E (parseTimeExpression ?E (js ''Pronto'') 1793615401234)
       1793615401234 (js ''Pronto'')"
    by blast
  from r parsed
  have "\<not> isDateTimeInPast ?E (format_DDMMYYYY 1793615401234) (format_HHmm 1793615401234)
            1793615401234 (js ''Pronto'')"
    by blast
  then have 3: "\<not> isDateTimeInPast ?E ''02/11/2026'' ''10:30'' 1793615401234 (js ''Pronto'')"
    by (simp add: formats_1030)
  from imm pronto_not_keyword parsed 1 2 3 show ?thesis
    by (simp only: uc not_False_eq_True simp_thms)
qed
end
